theory Spec2Isabelle
  imports Complex_Main
begin

section \<open>The background worker of Chat With Cat\<close>

text \<open>
  The theory embeds \<^verbatim>\<open>src/js/background.js\<close>: the response cache, the retry
  loop with exponential backoff, the body of the dispatch function, the delivery of a
  result to a tab, and the debounce wrapper with the timers it sets.

  Times are milliseconds as \<open>int\<close> (\<^verbatim>\<open>Date.now()\<close>); delays passed to
  \<^verbatim>\<open>setTimeout\<close> are \<open>rat\<close>, since the delivery loop multiplies its delay by
  1.5. JavaScript strings are modelled as \<open>string\<close>; only concatenation and equality
  are used on them.
\<close>

subsection \<open>Configuration constants\<close>

definition CACHE_EXPIRY :: int where
  "CACHE_EXPIRY = 30 * 60 * 1000"

definition DEBOUNCE_DELAY :: int where
  "DEBOUNCE_DELAY = 300"

definition MAX_RETRIES :: nat where
  "MAX_RETRIES = 3"

definition INITIAL_RETRY_DELAY :: rat where
  "INITIAL_RETRY_DELAY = 1000"

subsection \<open>The response cache\<close>

text \<open>
  \<^verbatim>\<open>responseCache\<close> is a \<^verbatim>\<open>Map\<close> from key strings to objects
  \<^verbatim>\<open>{ data, timestamp }\<close>. The source has no separate accessor functions: the
  lookup is lines 325 to 326 and the store is lines 342 to 345 of the dispatch body.
  \<open>cache_get\<close> is the lookup with its freshness test
  \<^verbatim>\<open>cachedResponse && Date.now() - cachedResponse.timestamp < CACHE_EXPIRY\<close>,
  \<open>cache_put\<close> is \<^verbatim>\<open>responseCache.set(cacheKey, { data, timestamp: Date.now() })\<close>.
\<close>

record cache_entry =
  data :: string
  timestamp :: int

type_synonym cache = "string \<rightharpoonup> cache_entry"

definition cache_get :: "cache \<Rightarrow> int \<Rightarrow> string \<Rightarrow> string option" where
  "cache_get c now k =
     (case c k of
        None \<Rightarrow> None
      | Some cachedResponse \<Rightarrow>
          if now - timestamp cachedResponse < CACHE_EXPIRY
          then Some (data cachedResponse) else None)"

definition cache_put :: "cache \<Rightarrow> int \<Rightarrow> string \<Rightarrow> string \<Rightarrow> cache" where
  "cache_put c now k v = c(k \<mapsto> \<lparr>data = v, timestamp = now\<rparr>)"

text \<open>Line 324: \<^verbatim>\<open>`${text}-${activeProvider}-${config.selectedModel}`\<close>.\<close>

definition cacheKey :: "string \<Rightarrow> string \<Rightarrow> string \<Rightarrow> string" where
  "cacheKey text activeProvider selectedModel =
     text @ ''-'' @ activeProvider @ ''-'' @ selectedModel"

subsection \<open>Errors, effects and the world outside the worker\<close>

text \<open>
  Every \<^verbatim>\<open>throw\<close> of the source throws an \<^verbatim>\<open>Error\<close> object, and the handler
  of the dispatch body reads only its \<^verbatim>\<open>message\<close>. An asynchronous function that
  can throw returns \<open>js_error + 'a\<close>, \<open>Inl\<close> for the rejection.
\<close>

datatype js_error = Error (message: string)

text \<open>
  The effects of the worker are recorded, in order, in a trace: an invocation of the
  wrapped operation by the retry loop, a timer wait, a call of
  \<^verbatim>\<open>sendResponseToContent\<close>, the two \<^verbatim>\<open>chrome.tabs\<close> calls of the
  delivery, and console output (the constant part of each message).
\<close>

datatype event =
    Attempt
  | SetTimeout rat
  | SendResponseToContent string nat
  | TabsGet nat
  | TabsSendMessage nat string
  | ConsoleLog string
  | ConsoleWarn string
  | ConsoleError string

text \<open>
  The state the worker runs in: its module-level cache, the trace, and everything
  outside the worker (network, clock, tabs) as a state \<open>'n\<close> that only the runtime
  functions below read and step.
\<close>

record 'n world =
  responseCache :: cache
  trace :: "event list"
  ext :: 'n

record provider_config =
  selectedModel :: "string option"
  apiKey :: "string option"

text \<open>
  What \<^verbatim>\<open>chrome.storage.local.get(['apiConfig', 'activeProvider'])\<close> resolves to.
  A missing property is \<open>None\<close>; \<^verbatim>\<open>!x\<close> holds of a missing property and of the
  empty string. \<open>apiConfig\<close> is the property lookup \<^verbatim>\<open>apiConfig[activeProvider]\<close>
  of the stored object: a name the object only inherits (such as \<^verbatim>\<open>constructor\<close>)
  is an entry with neither a model nor a key.
\<close>

record storage =
  apiConfig :: "(string \<rightharpoonup> provider_config) option"
  activeProvider :: "string option"

text \<open>
  The runtime: \<^verbatim>\<open>Date.now()\<close>, the passing of a timer wait, the table
  \<^verbatim>\<open>apiProviders\<close> of adapters (each \<^verbatim>\<open>fetchResponse(text, config)\<close> makes one
  network request and returns the answer or throws), the \<^verbatim>\<open>TypeError\<close> that
  \<^verbatim>\<open>apiProviders[activeProvider].fetchResponse\<close> raises for a name without an
  adapter (its text is the engine's), and the two \<^verbatim>\<open>chrome.tabs\<close> calls, whose
  boolean is \<open>True\<close> when the callback runs without \<^verbatim>\<open>chrome.runtime.lastError\<close>.
\<close>

record 'n runtime =
  Date_now :: "'n \<Rightarrow> int"
  timer_wait :: "rat \<Rightarrow> 'n \<Rightarrow> 'n"
  apiProviders :: "string \<Rightarrow> (string \<Rightarrow> provider_config \<Rightarrow> 'n \<Rightarrow> (js_error + string) \<times> 'n) option"
  no_adapter_error :: "string \<Rightarrow> js_error"
  tabs_get :: "nat \<Rightarrow> 'n \<Rightarrow> bool \<times> 'n"
  tabs_sendMessage :: "nat \<Rightarrow> string \<Rightarrow> 'n \<Rightarrow> bool \<times> 'n"

subsection \<open>Retry with exponential backoff\<close>

text \<open>
  Lines 56 to 68. \<open>retries\<close> is the loop's counter; the loop ends because it recurs
  only while \<open>retries < maxRetries\<close>. \<^verbatim>\<open>Math.pow(2, retries)\<close> is exact on the
  small counters that occur.
\<close>

function retryWithBackoff_loop ::
  "(rat \<Rightarrow> 'n \<Rightarrow> 'n) \<Rightarrow> ('n \<Rightarrow> ('e + 'a) \<times> 'n) \<Rightarrow> nat \<Rightarrow> rat \<Rightarrow> nat \<Rightarrow> 'n world
     \<Rightarrow> ('e + 'a) \<times> 'n world" where
  "retryWithBackoff_loop wait fn maxRetries initialDelay retries w =
     (case fn (ext w) of
        (Inr v, n) \<Rightarrow> (Inr v, w\<lparr>trace := trace w @ [Attempt], ext := n\<rparr>)
      | (Inl error, n) \<Rightarrow>
          if retries \<ge> maxRetries
          then (Inl error, w\<lparr>trace := trace w @ [Attempt], ext := n\<rparr>)
          else
            let delay = initialDelay * 2 ^ retries
            in retryWithBackoff_loop wait fn maxRetries initialDelay (retries + 1)
                 (w\<lparr>trace := trace w @ [Attempt, SetTimeout delay], ext := wait delay n\<rparr>))"
  by pat_completeness auto
termination
  by (relation "measure (\<lambda>(wait, fn, maxRetries, initialDelay, retries, w). maxRetries - retries)")
     auto

definition retryWithBackoff ::
  "(rat \<Rightarrow> 'n \<Rightarrow> 'n) \<Rightarrow> ('n \<Rightarrow> ('e + 'a) \<times> 'n) \<Rightarrow> nat \<Rightarrow> rat \<Rightarrow> 'n world
     \<Rightarrow> ('e + 'a) \<times> 'n world" where
  "retryWithBackoff wait fn maxRetries initialDelay w =
     retryWithBackoff_loop wait fn maxRetries initialDelay 0 w"

declare retryWithBackoff_loop.simps [simp del]

subsection \<open>The dispatch body\<close>

text \<open>
  Lines 302 to 354: the asynchronous function that \<^verbatim>\<open>debounce\<close> wraps.
  \<open>fetchAIResponse_try\<close> is its \<^verbatim>\<open>try\<close> block, \<open>fetchAIResponse_catch\<close> its
  handler. A call of \<^verbatim>\<open>sendResponseToContent\<close> is recorded in the trace; what
  the call does is \<open>sendResponseToContent\<close> below, which runs in callbacks after the
  body has gone on. The parameter \<open>st\<close> is what the storage read of line 305
  resolves to.
\<close>

definition throw :: "string \<Rightarrow> 'w \<Rightarrow> (js_error + 'a) \<times> 'w" where
  "throw msg w = (Inl (Error msg), w)"

definition fetchAIResponse_try ::
  "'n runtime \<Rightarrow> storage \<Rightarrow> string \<Rightarrow> nat \<Rightarrow> 'n world \<Rightarrow> (js_error + unit) \<times> 'n world" where
  "fetchAIResponse_try rt st text tabId w =
     (case apiConfig st of
        None \<Rightarrow> throw ''AI provider not configured. Please set up the extension first.'' w
      | Some configs \<Rightarrow>
      case activeProvider st of
        None \<Rightarrow> throw ''AI provider not configured. Please set up the extension first.'' w
      | Some provider \<Rightarrow>
      if provider = [] then throw ''AI provider not configured. Please set up the extension first.'' w
      else
      case configs provider of
        None \<Rightarrow> throw ''AI provider not configured. Please set up the extension first.'' w
      | Some config \<Rightarrow>
      case selectedModel config of
        None \<Rightarrow> throw ''No model selected. Please configure a model in the extension settings.'' w
      | Some model \<Rightarrow>
      if model = [] then throw ''No model selected. Please configure a model in the extension settings.'' w
      else
      case apiKey config of
        None \<Rightarrow> throw ''API key not found. Please set up your API key in the extension settings.'' w
      | Some key \<Rightarrow>
      if key = [] then throw ''API key not found. Please set up your API key in the extension settings.'' w
      else
      case cache_get (responseCache w) (Date_now rt (ext w)) (cacheKey text provider model) of
        Some cached \<Rightarrow>
          (Inr (), w\<lparr>trace := trace w @
             [ConsoleLog ''Cache hit, returning cached response'',
              SendResponseToContent cached tabId]\<rparr>)
      | None \<Rightarrow>
          (case retryWithBackoff (timer_wait rt)
                  (\<lambda>n. case apiProviders rt provider of
                          None \<Rightarrow> (Inl (no_adapter_error rt provider), n)
                        | Some fetchResponse \<Rightarrow> fetchResponse text config n)
                  MAX_RETRIES INITIAL_RETRY_DELAY
                  (w\<lparr>trace := trace w @ [ConsoleLog ''Making API request'']\<rparr>) of
             (Inl error, w1) \<Rightarrow> (Inl error, w1)
           | (Inr responseText, w1) \<Rightarrow>
               (Inr (), w1\<lparr>responseCache :=
                             cache_put (responseCache w1) (Date_now rt (ext w1))
                               (cacheKey text provider model) responseText,
                           trace := trace w1 @ [SendResponseToContent responseText tabId]\<rparr>)))"

definition fetchAIResponse_catch :: "js_error \<Rightarrow> nat \<Rightarrow> 'n world \<Rightarrow> 'n world" where
  "fetchAIResponse_catch error tabId w =
     w\<lparr>trace := trace w @
        [ConsoleError ''Error fetching from AI provider:'',
         SendResponseToContent (''Error: '' @ message error) tabId]\<rparr>"

definition fetchAIResponse_body ::
  "'n runtime \<Rightarrow> storage \<Rightarrow> string \<Rightarrow> nat \<Rightarrow> 'n world \<Rightarrow> 'n world" where
  "fetchAIResponse_body rt st text tabId w =
     (case fetchAIResponse_try rt st text tabId w of
        (Inr u, w1) \<Rightarrow> w1
      | (Inl error, w1) \<Rightarrow> fetchAIResponse_catch error tabId w1)"

text \<open>The calls of \<^verbatim>\<open>sendResponseToContent\<close> in a trace, in order: text and tab.\<close>

fun deliveries :: "event list \<Rightarrow> (string \<times> nat) list" where
  "deliveries [] = []"
| "deliveries (SendResponseToContent responseText tabId # es) = (responseText, tabId) # deliveries es"
| "deliveries (e # es) = deliveries es"


subsection \<open>Delivery to the content script\<close>

text \<open>
  Lines 108 to 137. The callbacks of \<^verbatim>\<open>chrome.tabs.get\<close> and
  \<^verbatim>\<open>chrome.tabs.sendMessage\<close> run in sequence, so the function is modelled as one
  run over the outside state; the retry is the recursive call made from the timer.
  No statement of the function throws, so the model has no error result. The delay
  grows by the factor 1.5, exact in floating point on the delays that occur
  (500, 750, 1125).
\<close>

fun sendResponseToContent ::
  "'n runtime \<Rightarrow> string \<Rightarrow> nat \<Rightarrow> nat \<Rightarrow> rat \<Rightarrow> 'n world \<Rightarrow> 'n world" where
  "sendResponseToContent rt responseText tabId retries delay w =
     (case tabs_get rt tabId (ext w) of
        (False, n1) \<Rightarrow>
          w\<lparr>trace := trace w @ [TabsGet tabId, ConsoleError ''Tab no longer exists:''],
            ext := n1\<rparr>
      | (True, n1) \<Rightarrow>
          (case tabs_sendMessage rt tabId responseText n1 of
             (True, n2) \<Rightarrow>
               w\<lparr>trace := trace w @ [TabsGet tabId, TabsSendMessage tabId responseText],
                 ext := n2\<rparr>
           | (False, n2) \<Rightarrow>
               if retries > 0
               then sendResponseToContent rt responseText tabId (retries - 1) (delay * 1.5)
                      (w\<lparr>trace := trace w @
                           [TabsGet tabId, TabsSendMessage tabId responseText,
                            ConsoleWarn ''Error sending response to content script:'',
                            ConsoleLog ''Retrying message sending'',
                            SetTimeout delay],
                         ext := timer_wait rt delay n2\<rparr>)
               else w\<lparr>trace := trace w @
                           [TabsGet tabId, TabsSendMessage tabId responseText,
                            ConsoleWarn ''Error sending response to content script:'',
                            ConsoleError ''Failed to send message after multiple attempts''],
                      ext := n2\<rparr>))"

declare sendResponseToContent.simps [simp del]

text \<open>
  The dispatch body calls \<^verbatim>\<open>sendResponseToContent(responseText, tabId)\<close>: the
  parameters \<^verbatim>\<open>retries = 3\<close> and \<^verbatim>\<open>delay = 500\<close> take their defaults.
\<close>

definition sendResponseToContent_defaults ::
  "'n runtime \<Rightarrow> string \<Rightarrow> nat \<Rightarrow> 'n world \<Rightarrow> 'n world" where
  "sendResponseToContent_defaults rt responseText tabId w =
     sendResponseToContent rt responseText tabId 3 500 w"

text \<open>The timer delays and the message sends in a trace.\<close>

fun timeouts :: "event list \<Rightarrow> rat list" where
  "timeouts [] = []"
| "timeouts (SetTimeout d # es) = d # timeouts es"
| "timeouts (e # es) = timeouts es"

fun sends :: "event list \<Rightarrow> nat" where
  "sends [] = 0"
| "sends (TabsSendMessage tabId responseText # es) = Suc (sends es)"
| "sends (e # es) = sends es"

subsection \<open>Debounce\<close>

text \<open>
  Lines 37 to 47. The closure variable \<^verbatim>\<open>timeout\<close> holds the handle of the last
  timer set; the runtime keeps the pending timers, each with its handle, the time it is
  due and the arguments captured by its callback \<^verbatim>\<open>later\<close>. \<open>executed\<close> lists the
  argument tuples with which the wrapped function \<^verbatim>\<open>func\<close> has been called.
\<close>

record 'a timer =
  tid :: nat
  deadline :: int
  targs :: 'a

record 'a debounced =
  timeout :: "nat option"
  pending :: "'a timer list"
  next_id :: nat
  executed :: "'a list"

definition clearTimeout :: "nat option \<Rightarrow> 'a debounced \<Rightarrow> 'a debounced" where
  "clearTimeout h s =
     (case h of
        None \<Rightarrow> s
      | Some i \<Rightarrow> s\<lparr>pending := filter (\<lambda>x. tid x \<noteq> i) (pending s)\<rparr>)"

definition setTimeout :: "'a \<Rightarrow> int \<Rightarrow> int \<Rightarrow> 'a debounced \<Rightarrow> nat \<times> 'a debounced" where
  "setTimeout args wait now s =
     (next_id s,
      s\<lparr>pending := pending s @ [\<lparr>tid = next_id s, deadline = now + wait, targs = args\<rparr>],
        next_id := Suc (next_id s)\<rparr>)"

definition later :: "'a \<Rightarrow> 'a debounced \<Rightarrow> 'a debounced" where
  "later args s =
     (let s1 = clearTimeout (timeout s) s
      in s1\<lparr>executed := executed s1 @ [args]\<rparr>)"

definition executedFunction :: "int \<Rightarrow> int \<Rightarrow> 'a \<Rightarrow> 'a debounced \<Rightarrow> 'a debounced" where
  "executedFunction wait now args s =
     (let s1 = clearTimeout (timeout s) s
      in case setTimeout args wait now s1 of
           (h, s2) \<Rightarrow> s2\<lparr>timeout := Some h\<rparr>)"

text \<open>
  The event loop. A timer runs no earlier than it is due; \<open>next_due\<close> picks, among the
  timers due at \<open>now\<close>, the one due first (the one set first, among equals), and
  \<open>run_timers\<close> runs the callbacks of the due timers in that order. A callback may
  clear timers and sets none, so the loop ends.
\<close>

definition next_due :: "int \<Rightarrow> 'a timer list \<Rightarrow> 'a timer option" where
  "next_due now ts =
     (case filter (\<lambda>x. deadline x \<le> now) ts of
        [] \<Rightarrow> None
      | x # xs \<Rightarrow> Some (fold (\<lambda>y m. if deadline y < deadline m then y else m) xs x))"

function run_timers :: "int \<Rightarrow> 'a debounced \<Rightarrow> 'a debounced" where
  "run_timers now s =
     (case next_due now (pending s) of
        None \<Rightarrow> s
      | Some x \<Rightarrow> run_timers now (later (targs x) (s\<lparr>pending := remove1 x (pending s)\<rparr>)))"
  by pat_completeness auto
termination
proof (relation "measure (\<lambda>(now, s). length (pending s))")
  show "wf (measure (\<lambda>(now, s). length (pending s)))" by simp
next
  fix now :: int and s :: "'a debounced" and x
  assume due: "next_due now (pending s) = Some x"
  have pick: "fold (\<lambda>y m. if deadline y < deadline m then y else m) xs m0 \<in> set (m0 # xs)"
    for xs and m0 :: "'a timer"
  proof (induction xs arbitrary: m0)
    case Nil
    show ?case by simp
  next
    case (Cons a xs)
    have "fold (\<lambda>y m. if deadline y < deadline m then y else m) xs
            (if deadline a < deadline m0 then a else m0)
          \<in> set ((if deadline a < deadline m0 then a else m0) # xs)"
      by (rule Cons.IH)
    then show ?case by (auto split: if_splits)
  qed
  from due obtain y ys where f: "filter (\<lambda>x. deadline x \<le> now) (pending s) = y # ys"
    and x: "x = fold (\<lambda>y m. if deadline y < deadline m then y else m) ys y"
    by (auto simp: next_due_def split: list.splits)
  from pick [of ys y] x f
  have "x \<in> set (filter (\<lambda>x. deadline x \<le> now) (pending s))" by simp
  then have "x \<in> set (pending s)" by simp
  then have "length (remove1 x (pending s)) < length (pending s)"
    by (metis length_pos_if_in_set length_remove1 diff_less zero_less_one)
  moreover have "length (pending (later (targs x) (s\<lparr>pending := remove1 x (pending s)\<rparr>)))
      \<le> length (remove1 x (pending s))"
    by (simp add: later_def clearTimeout_def Let_def split: option.splits)
  ultimately have "length (pending (later (targs x) (s\<lparr>pending := remove1 x (pending s)\<rparr>)))
      < length (pending s)"
    by (rule le_less_trans [rotated])
  then show "((now, later (targs x) (s\<lparr>pending := remove1 x (pending s)\<rparr>)), (now, s))
      \<in> measure (\<lambda>(now, s). length (pending s))"
    by simp
qed

declare run_timers.simps [simp del]

text \<open>
  Line 302: \<^verbatim>\<open>fetchAIResponse = debounce(async (text, tabId) => ..., DEBOUNCE_DELAY)\<close>.
  A call at time \<open>now\<close> comes after the timers due by then have run.
\<close>

definition fetchAIResponse ::
  "int \<Rightarrow> string \<Rightarrow> nat \<Rightarrow> (string \<times> nat) debounced \<Rightarrow> (string \<times> nat) debounced" where
  "fetchAIResponse now text tabId s = executedFunction DEBOUNCE_DELAY now (text, tabId) s"

fun run_calls ::
  "(int \<times> string \<times> nat) list \<Rightarrow> (string \<times> nat) debounced \<Rightarrow> (string \<times> nat) debounced" where
  "run_calls [] s = s"
| "run_calls ((now, text, tabId) # calls) s =
     run_calls calls (fetchAIResponse now text tabId (run_timers now s))"

subsection \<open>A concrete runtime\<close>

text \<open>
  For the concrete instances below: the outside state is a clock in milliseconds; each
  of the three adapters takes 200 ms and has the given outcome, every tab lookup and
  every message send has the given result, and the storage holds one entry, for the
  active provider.
\<close>

definition example_runtime :: "(js_error + string) \<Rightarrow> bool \<Rightarrow> bool \<Rightarrow> nat runtime" where
  "example_runtime outcome tab_exists sent =
     \<lparr>Date_now = int,
      timer_wait = (\<lambda>delay n. n + nat \<lfloor>delay\<rfloor>),
      apiProviders = (\<lambda>provider.
        if provider \<in> {''gemini'', ''openrouter'', ''groq''}
        then Some (\<lambda>text config n. (outcome, n + 200)) else None),
      no_adapter_error = (\<lambda>provider. Error ''Cannot read properties of undefined''),
      tabs_get = (\<lambda>tabId n. (tab_exists, n)),
      tabs_sendMessage = (\<lambda>tabId responseText n. (sent, n))\<rparr>"

text \<open>
  The same runtime with outcomes that depend on the clock: the outcome of an adapter
  invocation, whether the tab is there, and whether a message send succeeds, each at
  the time of the call. \<open>flaky_runtime\<close> is the case of a network that is down at
  time 0 and up afterwards, with the tab there and the content script answering.
\<close>

definition clocked_runtime ::
  "(nat \<Rightarrow> js_error + string) \<Rightarrow> (nat \<Rightarrow> bool) \<Rightarrow> (nat \<Rightarrow> bool) \<Rightarrow> nat runtime" where
  "clocked_runtime outcome tab_exists sent =
     \<lparr>Date_now = int,
      timer_wait = (\<lambda>delay n. n + nat \<lfloor>delay\<rfloor>),
      apiProviders = (\<lambda>provider.
        if provider \<in> {''gemini'', ''openrouter'', ''groq''}
        then Some (\<lambda>text config n. (outcome n, n + 200)) else None),
      no_adapter_error = (\<lambda>provider. Error ''Cannot read properties of undefined''),
      tabs_get = (\<lambda>tabId n. (tab_exists n, n)),
      tabs_sendMessage = (\<lambda>tabId responseText n. (sent n, n))\<rparr>"



definition example_storage :: "string \<Rightarrow> string \<Rightarrow> string \<Rightarrow> storage" where
  "example_storage provider model key =
     \<lparr>apiConfig = Some [provider \<mapsto> \<lparr>selectedModel = Some model, apiKey = Some key\<rparr>],
      activeProvider = Some provider\<rparr>"

section \<open>Properties\<close>

subsection \<open>Cache\<close>

lemma cache_get_put_same:
  "cache_get (cache_put c t k v) now k = (if now - t < CACHE_EXPIRY then Some v else None)"
  by (simp add: cache_get_def cache_put_def)

lemma cache_get_put_other:
  "k' \<noteq> k \<Longrightarrow> cache_get (cache_put c t k v) now k' = cache_get c now k'"
  by (simp add: cache_get_def cache_put_def)



subsection \<open>Retry\<close>

lemma retry_loop_success:
  "fn (ext w) = (Inr v, n) \<Longrightarrow>
   retryWithBackoff_loop wait fn m d r w = (Inr v, w\<lparr>trace := trace w @ [Attempt], ext := n\<rparr>)"
  by (subst retryWithBackoff_loop.simps) simp

lemma retry_loop_exhausted:
  "fn (ext w) = (Inl e, n) \<Longrightarrow> m \<le> r \<Longrightarrow>
   retryWithBackoff_loop wait fn m d r w = (Inl e, w\<lparr>trace := trace w @ [Attempt], ext := n\<rparr>)"
  by (subst retryWithBackoff_loop.simps) simp

lemma retry_loop_again:
  "fn (ext w) = (Inl e, n) \<Longrightarrow> r < m \<Longrightarrow>
   retryWithBackoff_loop wait fn m d r w =
     retryWithBackoff_loop wait fn m d (Suc r)
       (w\<lparr>trace := trace w @ [Attempt, SetTimeout (d * 2 ^ r)], ext := wait (d * 2 ^ r) n\<rparr>)"
  by (subst retryWithBackoff_loop.simps) (simp add: Let_def)

lemma retry_four_failures:
  assumes "fn (ext w) = (Inl e0, n0)" "fn (wait 1000 n0) = (Inl e1, n1)"
    "fn (wait 2000 n1) = (Inl e2, n2)" "fn (wait 4000 n2) = (Inl e3, n3)"
  shows "retryWithBackoff wait fn MAX_RETRIES INITIAL_RETRY_DELAY w =
     (Inl e3, w\<lparr>trace := trace w @ [Attempt, SetTimeout 1000, Attempt, SetTimeout 2000,
                                     Attempt, SetTimeout 4000, Attempt],
                ext := n3\<rparr>)"
  using assms
  by (simp add: retryWithBackoff_def MAX_RETRIES_def INITIAL_RETRY_DELAY_def
      retry_loop_again retry_loop_exhausted)

lemma retry_two_failures:
  assumes "fn (ext w) = (Inl e0, n0)" "fn (wait 1000 n0) = (Inl e1, n1)"
    "fn (wait 2000 n1) = (Inr v, n2)"
  shows "retryWithBackoff wait fn MAX_RETRIES INITIAL_RETRY_DELAY w =
     (Inr v, w\<lparr>trace := trace w @ [Attempt, SetTimeout 1000, Attempt, SetTimeout 2000, Attempt],
               ext := n2\<rparr>)"
  using assms
  by (simp add: retryWithBackoff_def MAX_RETRIES_def INITIAL_RETRY_DELAY_def
      retry_loop_again retry_loop_success)

lemma retry_no_failure:
  assumes "fn (ext w) = (Inr v, n0)"
  shows "retryWithBackoff wait fn MAX_RETRIES INITIAL_RETRY_DELAY w =
     (Inr v, w\<lparr>trace := trace w @ [Attempt], ext := n0\<rparr>)"
  using assms by (simp add: retryWithBackoff_def retry_loop_success)

text \<open>
  Claim C1. With \<open>maxRetries = 3\<close> and \<open>initialDelay = 1000\<close>: an operation whose four
  invocations all throw is invoked exactly four times, with waits of 1000, 2000 and
  4000 ms between the invocations, and the loop throws the very error of the fourth
  invocation; an operation that throws twice and then returns is invoked three times
  (two retries) and the loop returns its value; an operation that returns at once is
  invoked once and no timer is set.
\<close>

theorem retry_backoff_schedule:
  "(fn (ext w) = (Inl e0, n0) \<and> fn (wait 1000 n0) = (Inl e1, n1)
      \<and> fn (wait 2000 n1) = (Inl e2, n2) \<and> fn (wait 4000 n2) = (Inl e3, n3) \<longrightarrow>
    MAX_RETRIES + 1 = 4 \<and>
    retryWithBackoff wait fn MAX_RETRIES INITIAL_RETRY_DELAY w =
      (Inl e3, w\<lparr>trace := trace w @ [Attempt, SetTimeout 1000, Attempt, SetTimeout 2000,
                                      Attempt, SetTimeout 4000, Attempt],
                 ext := n3\<rparr>))
   \<and> (fn (ext w) = (Inl e0, n0) \<and> fn (wait 1000 n0) = (Inl e1, n1)
      \<and> fn (wait 2000 n1) = (Inr v, n2) \<longrightarrow>
    retryWithBackoff wait fn MAX_RETRIES INITIAL_RETRY_DELAY w =
      (Inr v, w\<lparr>trace := trace w @ [Attempt, SetTimeout 1000, Attempt, SetTimeout 2000, Attempt],
                ext := n2\<rparr>))
   \<and> (fn (ext w) = (Inr v, n0) \<longrightarrow>
    retryWithBackoff wait fn MAX_RETRIES INITIAL_RETRY_DELAY w =
      (Inr v, w\<lparr>trace := trace w @ [Attempt], ext := n0\<rparr>))"
  using retry_four_failures [of fn w e0 n0 wait e1 n1 e2 n2 e3 n3]
    retry_two_failures [of fn w e0 n0 wait e1 n1 v n2]
    retry_no_failure [of fn w v n0]
  by (simp add: MAX_RETRIES_def)

text \<open>
  The operation of the witness counts its invocations in the outside state and throws
  its count until the count reaches 4: started at 0 it throws four times, started at 2
  it throws twice and returns, started at 4 it returns at once.
\<close>

theorem retry_backoff_schedule_witness:
  "retryWithBackoff (\<lambda>d n. n) (\<lambda>n::nat. (if n < 4 then Inl n else Inr ''ok'', n + 1))
      MAX_RETRIES INITIAL_RETRY_DELAY \<lparr>responseCache = Map.empty, trace = [], ext = 0\<rparr>
    = (Inl 3, \<lparr>responseCache = Map.empty,
               trace = [Attempt, SetTimeout 1000, Attempt, SetTimeout 2000,
                        Attempt, SetTimeout 4000, Attempt],
               ext = 4\<rparr>)
   \<and> retryWithBackoff (\<lambda>d n. n) (\<lambda>n::nat. (if n < 4 then Inl n else Inr ''ok'', n + 1))
      MAX_RETRIES INITIAL_RETRY_DELAY \<lparr>responseCache = Map.empty, trace = [], ext = 2\<rparr>
    = (Inr ''ok'', \<lparr>responseCache = Map.empty,
               trace = [Attempt, SetTimeout 1000, Attempt, SetTimeout 2000, Attempt],
               ext = 5\<rparr>)
   \<and> retryWithBackoff (\<lambda>d n. n) (\<lambda>n::nat. (if n < 4 then Inl n else Inr ''ok'', n + 1))
      MAX_RETRIES INITIAL_RETRY_DELAY \<lparr>responseCache = Map.empty, trace = [], ext = 4\<rparr>
    = (Inr ''ok'', \<lparr>responseCache = Map.empty, trace = [Attempt], ext = 5\<rparr>)"
  using
    retry_backoff_schedule [where fn = "\<lambda>n::nat. (if n < 4 then Inl n else Inr ''ok'', n + 1)"
      and w = "\<lparr>responseCache = Map.empty, trace = [], ext = 0\<rparr>" and wait = "\<lambda>d n. n"
      and ?e0.0 = 0 and ?n0.0 = 1 and ?e1.0 = 1 and ?n1.0 = 2 and ?e2.0 = 2 and ?n2.0 = 3
      and ?e3.0 = 3 and ?n3.0 = 4 and v = "''ok''"]
    retry_backoff_schedule [where fn = "\<lambda>n::nat. (if n < 4 then Inl n else Inr ''ok'', n + 1)"
      and w = "\<lparr>responseCache = Map.empty, trace = [], ext = 2\<rparr>" and wait = "\<lambda>d n. n"
      and ?e0.0 = 2 and ?n0.0 = 3 and ?e1.0 = 3 and ?n1.0 = 4 and ?e2.0 = 0 and ?n2.0 = 5
      and ?e3.0 = 0 and ?n3.0 = 0 and v = "''ok''"]
    retry_backoff_schedule [where fn = "\<lambda>n::nat. (if n < 4 then Inl n else Inr ''ok'', n + 1)"
      and w = "\<lparr>responseCache = Map.empty, trace = [], ext = 4\<rparr>" and wait = "\<lambda>d n. n"
      and ?e0.0 = 0 and ?n0.0 = 5 and ?e1.0 = 0 and ?n1.0 = 0 and ?e2.0 = 0 and ?n2.0 = 0
      and ?e3.0 = 0 and ?n3.0 = 0 and v = "''ok''"]
  by simp

subsection \<open>The dispatch body\<close>

lemma try_hit:
  assumes "apiConfig st = Some configs"
    and "activeProvider st = Some provider"
    and "configs provider = Some config"
    and "selectedModel config = Some model" "apiKey config = Some key"
    and "provider \<noteq> []" "model \<noteq> []" "key \<noteq> []"
    and "cache_get (responseCache w) (Date_now rt (ext w)) (cacheKey text provider model) = Some cached"
  shows "fetchAIResponse_try rt st text tabId w =
     (Inr (), w\<lparr>trace := trace w @ [ConsoleLog ''Cache hit, returning cached response'',
                                   SendResponseToContent cached tabId]\<rparr>)"
  using assms by (simp add: fetchAIResponse_try_def)

lemma try_miss:
  assumes "apiConfig st = Some configs"
    and "activeProvider st = Some provider"
    and "configs provider = Some config"
    and "selectedModel config = Some model" "apiKey config = Some key"
    and "provider \<noteq> []" "model \<noteq> []" "key \<noteq> []"
    and "cache_get (responseCache w) (Date_now rt (ext w)) (cacheKey text provider model) = None"
  shows "fetchAIResponse_try rt st text tabId w =
     (case retryWithBackoff (timer_wait rt)
                  (\<lambda>n. case apiProviders rt provider of
                          None \<Rightarrow> (Inl (no_adapter_error rt provider), n)
                        | Some fetchResponse \<Rightarrow> fetchResponse text config n)
                  MAX_RETRIES INITIAL_RETRY_DELAY
                  (w\<lparr>trace := trace w @ [ConsoleLog ''Making API request'']\<rparr>) of
             (Inl error, w1) \<Rightarrow> (Inl error, w1)
           | (Inr responseText, w1) \<Rightarrow>
               (Inr (), w1\<lparr>responseCache :=
                             cache_put (responseCache w1) (Date_now rt (ext w1))
                               (cacheKey text provider model) responseText,
                           trace := trace w1 @ [SendResponseToContent responseText tabId]\<rparr>))"
  using assms by (simp add: fetchAIResponse_try_def)

lemma body_hit:
  assumes "apiConfig st = Some configs"
    and "activeProvider st = Some provider"
    and "configs provider = Some config"
    and "selectedModel config = Some model" "apiKey config = Some key"
    and "provider \<noteq> []" "model \<noteq> []" "key \<noteq> []"
    and "cache_get (responseCache w) (Date_now rt (ext w)) (cacheKey text provider model) = Some cached"
  shows "fetchAIResponse_body rt st text tabId w =
     w\<lparr>trace := trace w @ [ConsoleLog ''Cache hit, returning cached response'',
                                   SendResponseToContent cached tabId]\<rparr>"
  using assms try_hit [of st configs provider config model key w rt "text" cached tabId] by (simp add: fetchAIResponse_body_def)

lemma body_miss_success:
  assumes "apiConfig st = Some configs"
    and "activeProvider st = Some provider"
    and "configs provider = Some config"
    and "selectedModel config = Some model" "apiKey config = Some key"
    and "provider \<noteq> []" "model \<noteq> []" "key \<noteq> []"
    and "cache_get (responseCache w) (Date_now rt (ext w)) (cacheKey text provider model) = None"
    and "apiProviders rt provider = Some fetchResponse"
    and "fetchResponse text config (ext w) = (Inr answer, n1)"
  shows "fetchAIResponse_body rt st text tabId w =
     w\<lparr>responseCache := cache_put (responseCache w) (Date_now rt n1) (cacheKey text provider model) answer,
       trace := trace w @ [ConsoleLog ''Making API request'', Attempt, SendResponseToContent answer tabId],
       ext := n1\<rparr>"
proof -
  let ?fn = "\<lambda>n. case apiProviders rt provider of
                          None \<Rightarrow> (Inl (no_adapter_error rt provider), n)
                        | Some fetchResponse \<Rightarrow> fetchResponse text config n"
  let ?w0 = "w\<lparr>trace := trace w @ [ConsoleLog ''Making API request'']\<rparr>"
  have "?fn (ext ?w0) = (Inr answer, n1)" using assms(10,11) by simp
  then have "retryWithBackoff (timer_wait rt) ?fn MAX_RETRIES INITIAL_RETRY_DELAY ?w0
      = (Inr answer, ?w0\<lparr>trace := trace ?w0 @ [Attempt], ext := n1\<rparr>)"
    by (rule retry_no_failure)
  then show ?thesis
    using assms(1-9) try_miss [of st configs provider config model key w rt "text" tabId]
    by (simp add: fetchAIResponse_body_def)
qed

lemma body_miss_exhausted:
  assumes "apiConfig st = Some configs"
    and "activeProvider st = Some provider"
    and "configs provider = Some config"
    and "selectedModel config = Some model" "apiKey config = Some key"
    and "provider \<noteq> []" "model \<noteq> []" "key \<noteq> []"
    and "cache_get (responseCache w) (Date_now rt (ext w)) (cacheKey text provider model) = None"
    and "apiProviders rt provider = Some fetchResponse"
    and "fetchResponse text config (ext w) = (Inl e0, n0)"
    and "fetchResponse text config (timer_wait rt 1000 n0) = (Inl e1, n1)"
    and "fetchResponse text config (timer_wait rt 2000 n1) = (Inl e2, n2)"
    and "fetchResponse text config (timer_wait rt 4000 n2) = (Inl e3, n3)"
  shows "fetchAIResponse_body rt st text tabId w =
     w\<lparr>trace := trace w @ [ConsoleLog ''Making API request'',
          Attempt, SetTimeout 1000, Attempt, SetTimeout 2000, Attempt, SetTimeout 4000, Attempt,
          ConsoleError ''Error fetching from AI provider:'',
          SendResponseToContent (''Error: '' @ message e3) tabId],
       ext := n3\<rparr>"
proof -
  let ?fn = "\<lambda>n. case apiProviders rt provider of
                          None \<Rightarrow> (Inl (no_adapter_error rt provider), n)
                        | Some fetchResponse \<Rightarrow> fetchResponse text config n"
  let ?w0 = "w\<lparr>trace := trace w @ [ConsoleLog ''Making API request'']\<rparr>"
  have "?fn (ext ?w0) = (Inl e0, n0)" "?fn (timer_wait rt 1000 n0) = (Inl e1, n1)"
    "?fn (timer_wait rt 2000 n1) = (Inl e2, n2)" "?fn (timer_wait rt 4000 n2) = (Inl e3, n3)"
    using assms(10-14) by simp_all
  then have "retryWithBackoff (timer_wait rt) ?fn MAX_RETRIES INITIAL_RETRY_DELAY ?w0
      = (Inl e3, ?w0\<lparr>trace := trace ?w0 @ [Attempt, SetTimeout 1000, Attempt, SetTimeout 2000,
                                     Attempt, SetTimeout 4000, Attempt], ext := n3\<rparr>)"
    by (rule retry_four_failures)
  then show ?thesis
    using assms(1-9) try_miss [of st configs provider config model key w rt "text" tabId]
    by (simp add: fetchAIResponse_body_def fetchAIResponse_catch_def)
qed

lemma try_config_error:
  assumes "apiConfig st = None
     \<or> activeProvider st = None
     \<or> activeProvider st = Some []
     \<or> (\<exists>configs provider. apiConfig st = Some configs
           \<and> activeProvider st = Some provider
           \<and> (configs provider = None
              \<or> (\<exists>config. configs provider = Some config
                    \<and> (selectedModel config = None \<or> selectedModel config = Some []
                       \<or> apiKey config = None \<or> apiKey config = Some []))))"
  shows "\<exists>msg \<in> {''AI provider not configured. Please set up the extension first.'',
                  ''No model selected. Please configure a model in the extension settings.'',
                  ''API key not found. Please set up your API key in the extension settings.''}.
           fetchAIResponse_try rt st text tabId w = (Inl (Error msg), w)"
  using assms
  by (auto simp add: fetchAIResponse_try_def throw_def Let_def split: option.splits)

lemma deliveries_append: "deliveries (xs @ ys) = deliveries xs @ deliveries ys"
  by (induction xs rule: deliveries.induct) simp_all

lemma retry_loop_frame:
  "retryWithBackoff_loop wait fn m d r w = (res, w') \<Longrightarrow>
     deliveries (trace w') = deliveries (trace w) \<and> responseCache w' = responseCache w"
proof (induction wait fn m d r w rule: retryWithBackoff_loop.induct)
  case (1 wait fn maxRetries initialDelay retries w)
  obtain out n where fn: "fn (ext w) = (out, n)" by (cases "fn (ext w)")
  show ?case
  proof (cases out)
    case (Inr v)
    with fn "1.prems" show ?thesis
      by (auto simp add: retry_loop_success [of fn w v n] deliveries_append)
  next
    case (Inl e)
    show ?thesis
    proof (cases "maxRetries \<le> retries")
      case True
      with fn Inl "1.prems" show ?thesis
        by (auto simp add: retry_loop_exhausted [of fn w e n] deliveries_append)
    next
      case False
      let ?delay = "initialDelay * 2 ^ retries"
      let ?w1 = "w\<lparr>trace := trace w @ [Attempt, SetTimeout ?delay], ext := wait ?delay n\<rparr>"
      from False fn Inl "1.prems"
      have "retryWithBackoff_loop wait fn maxRetries initialDelay (retries + 1) ?w1 = (res, w')"
        by (simp add: retry_loop_again [of fn w e n])
      then have "deliveries (trace w') = deliveries (trace ?w1) \<and> responseCache w' = responseCache ?w1"
        by (rule "1.IH" [OF fn [symmetric] Inl False refl])
      then show ?thesis by (simp add: deliveries_append)
    qed
  qed
qed

lemma try_error_frame:
  assumes "fetchAIResponse_try rt st text tabId w = (Inl error, w1)"
  shows "deliveries (trace w1) = deliveries (trace w) \<and> responseCache w1 = responseCache w"
proof (cases "\<exists>msg. fetchAIResponse_try rt st text tabId w = (Inl (Error msg), w)")
  case True
  with assms show ?thesis by auto
next
  case False
  then obtain configs provider config model key where
    v: "apiConfig st = Some configs" "activeProvider st = Some provider" "configs provider = Some config"
      "selectedModel config = Some model" "apiKey config = Some key"
      "provider \<noteq> []" "model \<noteq> []" "key \<noteq> []"
    by (auto simp add: fetchAIResponse_try_def throw_def split: option.splits if_splits)
  let ?fn = "\<lambda>n. case apiProviders rt provider of
                 None \<Rightarrow> (Inl (no_adapter_error rt provider), n)
               | Some fetchResponse \<Rightarrow> fetchResponse text config n"
  let ?w0 = "w\<lparr>trace := trace w @ [ConsoleLog ''Making API request'']\<rparr>"
  obtain res w' where r: "retryWithBackoff (timer_wait rt) ?fn MAX_RETRIES INITIAL_RETRY_DELAY ?w0 = (res, w')"
    by (cases "retryWithBackoff (timer_wait rt) ?fn MAX_RETRIES INITIAL_RETRY_DELAY ?w0")
  then have fr: "deliveries (trace w') = deliveries (trace ?w0) \<and> responseCache w' = responseCache ?w0"
    unfolding retryWithBackoff_def by (rule retry_loop_frame)
  show ?thesis
  proof (cases "cache_get (responseCache w) (Date_now rt (ext w)) (cacheKey text provider model)")
    case (Some cached)
    with v assms show ?thesis by (simp add: fetchAIResponse_try_def)
  next
    case None
    with v assms r have "res = Inl error \<and> w1 = w'"
      by (simp add: fetchAIResponse_try_def split: sum.splits)
    with fr show ?thesis by (simp add: deliveries_append)
  qed
qed

lemma body_config_error:
  assumes "apiConfig st = None
     \<or> activeProvider st = None
     \<or> activeProvider st = Some []
     \<or> (\<exists>configs provider. apiConfig st = Some configs
           \<and> activeProvider st = Some provider
           \<and> (configs provider = None
              \<or> (\<exists>config. configs provider = Some config
                    \<and> (selectedModel config = None \<or> selectedModel config = Some []
                       \<or> apiKey config = None \<or> apiKey config = Some []))))"
  shows "\<exists>msg \<in> {''AI provider not configured. Please set up the extension first.'',
                  ''No model selected. Please configure a model in the extension settings.'',
                  ''API key not found. Please set up your API key in the extension settings.''}.
           fetchAIResponse_body rt st text tabId w = fetchAIResponse_catch (Error msg) tabId w"
proof -
  from try_config_error [OF assms, of rt "text" tabId w]
  obtain msg where "msg \<in> {''AI provider not configured. Please set up the extension first.'',
                  ''No model selected. Please configure a model in the extension settings.'',
                  ''API key not found. Please set up your API key in the extension settings.''}"
    and "fetchAIResponse_try rt st text tabId w = (Inl (Error msg), w)"
    by blast
  then show ?thesis by (intro bexI [of _ msg]) (simp_all add: fetchAIResponse_body_def)
qed

text \<open>
  Claim C4. When the storage holds no active provider (none, or the empty string), no
  configuration at all, no entry for the active provider, or an entry whose model or
  API key is missing or empty, the dispatch body leaves the outside world and the cache
  as they are (no request is made, no adapter is invoked) and calls
  \<^verbatim>\<open>sendResponseToContent\<close> once, from the handler that serves every error, with
  \<open>Error: \<close> followed by one of the three configuration messages.
\<close>

theorem config_gate:
  assumes "apiConfig st = None
     \<or> activeProvider st = None
     \<or> activeProvider st = Some []
     \<or> (\<exists>configs provider. apiConfig st = Some configs
           \<and> activeProvider st = Some provider
           \<and> (configs provider = None
              \<or> (\<exists>config. configs provider = Some config
                    \<and> (selectedModel config = None \<or> selectedModel config = Some []
                       \<or> apiKey config = None \<or> apiKey config = Some []))))"
  shows "\<exists>msg \<in> {''AI provider not configured. Please set up the extension first.'',
                  ''No model selected. Please configure a model in the extension settings.'',
                  ''API key not found. Please set up your API key in the extension settings.''}.
           fetchAIResponse_body rt st text tabId w = fetchAIResponse_catch (Error msg) tabId w
         \<and> fetchAIResponse_body rt st text tabId w =
             w\<lparr>trace := trace w @ [ConsoleError ''Error fetching from AI provider:'',
                                   SendResponseToContent (''Error: '' @ msg) tabId]\<rparr>"
  using body_config_error [OF assms, of rt "text" tabId w]
  by (simp add: fetchAIResponse_catch_def)

text \<open>Nothing stored at all; and a stored entry for groq whose API key is empty.\<close>

theorem config_gate_witness:
  "fetchAIResponse_body (example_runtime (Inr ''hi'') True True)
      \<lparr>apiConfig = None, activeProvider = None\<rparr> ''hello'' 7
      \<lparr>responseCache = Map.empty, trace = [], ext = 0\<rparr>
    = \<lparr>responseCache = Map.empty,
       trace = [ConsoleError ''Error fetching from AI provider:'',
                SendResponseToContent
                  ''Error: AI provider not configured. Please set up the extension first.'' 7],
       ext = 0\<rparr>
   \<and> fetchAIResponse_body (example_runtime (Inr ''hi'') True True)
      (example_storage ''groq'' ''llama3-70b-8192'' []) ''hello'' 7
      \<lparr>responseCache = Map.empty, trace = [], ext = 0\<rparr>
    = \<lparr>responseCache = Map.empty,
       trace = [ConsoleError ''Error fetching from AI provider:'',
                SendResponseToContent
                  ''Error: API key not found. Please set up your API key in the extension settings.'' 7],
       ext = 0\<rparr>"
  using
    config_gate [of "\<lparr>apiConfig = None, activeProvider = None\<rparr>"
      "example_runtime (Inr ''hi'') True True" "''hello''" 7
      "\<lparr>responseCache = Map.empty, trace = [], ext = 0\<rparr>"]
    config_gate [of "example_storage ''groq'' ''llama3-70b-8192'' []"
      "example_runtime (Inr ''hi'') True True" "''hello''" 7
      "\<lparr>responseCache = Map.empty, trace = [], ext = 0\<rparr>"]
  by (simp add: example_storage_def fetchAIResponse_body_def fetchAIResponse_try_def throw_def
      fetchAIResponse_catch_def)

lemma dispatch_then_hit:
  assumes "apiConfig st1 = Some configs1" "activeProvider st1 = Some provider1"
    and "configs1 provider1 = Some config1"
    and "selectedModel config1 = Some model1" "apiKey config1 = Some key1"
    and "provider1 \<noteq> []" "model1 \<noteq> []" "key1 \<noteq> []"
    and "cache_get (responseCache w) (Date_now rt (ext w)) (cacheKey text1 provider1 model1) = None"
    and "apiProviders rt provider1 = Some fetchResponse"
    and "fetchResponse text1 config1 (ext w) = (Inr answer, n1)"
    and "apiConfig st2 = Some configs2" "activeProvider st2 = Some provider2"
    and "configs2 provider2 = Some config2"
    and "selectedModel config2 = Some model2" "apiKey config2 = Some key2"
    and "provider2 \<noteq> []" "model2 \<noteq> []" "key2 \<noteq> []"
    and "cacheKey text2 provider2 model2 = cacheKey text1 provider1 model1"
    and "responseCache w2 = responseCache (fetchAIResponse_body rt st1 text1 tabId1 w)"
    and "Date_now rt (ext w2) - Date_now rt n1 < CACHE_EXPIRY"
  shows "fetchAIResponse_body rt st2 text2 tabId2 w2 =
     w2\<lparr>trace := trace w2 @ [ConsoleLog ''Cache hit, returning cached response'',
                             SendResponseToContent answer tabId2]\<rparr>"
proof -
  have "fetchAIResponse_body rt st1 text1 tabId1 w =
     w\<lparr>responseCache := cache_put (responseCache w) (Date_now rt n1)
                           (cacheKey text1 provider1 model1) answer,
       trace := trace w @ [ConsoleLog ''Making API request'', Attempt,
                           SendResponseToContent answer tabId1],
       ext := n1\<rparr>"
    using assms(1-11) by (rule body_miss_success)
  with assms(21) have "responseCache w2 =
      cache_put (responseCache w) (Date_now rt n1) (cacheKey text1 provider1 model1) answer"
    by simp
  with assms(20,22)
  have "cache_get (responseCache w2) (Date_now rt (ext w2)) (cacheKey text2 provider2 model2)
      = Some answer"
    by (simp add: cache_get_put_same)
  with assms(12-19) show ?thesis by (rule body_hit)
qed




text \<open>
  Claim C8. For one text and one provider, the keys of two different models differ, so
  an answer stored under the key of model \<open>m1\<close> is not found under the key of model
  \<open>m2\<close>: a lookup there gives what it gave before the store, and nothing in a cache
  that held nothing else. The same holds for one text and one model under two different
  providers.
\<close>

theorem cache_key_sensitive:
  "(m1 \<noteq> m2 \<longrightarrow>
      cacheKey text p m1 \<noteq> cacheKey text p m2
      \<and> cache_get (cache_put Map.empty t (cacheKey text p m1) v) now (cacheKey text p m2) = None
      \<and> cache_get (cache_put c t (cacheKey text p m1) v) now (cacheKey text p m2)
          = cache_get c now (cacheKey text p m2))
   \<and> (p1 \<noteq> p2 \<longrightarrow>
      cacheKey text p1 m \<noteq> cacheKey text p2 m
      \<and> cache_get (cache_put Map.empty t (cacheKey text p1 m) v) now (cacheKey text p2 m) = None
      \<and> cache_get (cache_put c t (cacheKey text p1 m) v) now (cacheKey text p2 m)
          = cache_get c now (cacheKey text p2 m))"
proof -
  have k1: "cacheKey text p m2 \<noteq> cacheKey text p m1" if "m1 \<noteq> m2"
    using that by (auto simp add: cacheKey_def)
  have k2: "cacheKey text p2 m \<noteq> cacheKey text p1 m" if "p1 \<noteq> p2"
    using that by (auto simp add: cacheKey_def)
  have empty: "cache_get Map.empty now k = None" for k
    by (simp add: cache_get_def)
  show ?thesis
    using k1 k2 by (auto simp add: cache_get_put_other empty)
qed

theorem cache_key_sensitive_witness:
  "cache_get
     (cache_put Map.empty 0 (cacheKey ''hello'' ''groq'' ''llama3-70b-8192'') ''Hi there'')
     1 (cacheKey ''hello'' ''groq'' ''mistral-saba-24b'') = None
   \<and> cache_get
     (cache_put Map.empty 0 (cacheKey ''hello'' ''groq'' ''llama3-70b-8192'') ''Hi there'')
     1 (cacheKey ''hello'' ''gemini'' ''llama3-70b-8192'') = None
   \<and> cache_get
     (cache_put Map.empty 0 (cacheKey ''hello'' ''groq'' ''llama3-70b-8192'') ''Hi there'')
     1 (cacheKey ''hello'' ''groq'' ''llama3-70b-8192'') = Some ''Hi there''"
  using cache_key_sensitive [of "''llama3-70b-8192''" "''mistral-saba-24b''" "''hello''" "''groq''"
      0 "''Hi there''" 1 Map.empty "''groq''" "''gemini''" "''llama3-70b-8192''"]
  by (simp add: cache_get_put_same CACHE_EXPIRY_def)

text \<open>
  Claim C9. The key is a concatenation with a separator that the parts may contain, so
  it does not determine its parts: for every provider \<open>p\<close> and model \<open>m\<close> the text
  \<open>a-\<close>\<open>p\<close> under model \<open>m\<close> and the text \<open>a\<close> under model \<open>p\<close>\<open>-\<close>\<open>m\<close> have the same key,
  though texts and models differ. So when the first has been dispatched and answered, a
  dispatch of the second within 30 minutes of the store delivers the answer that was
  given for the first, without invoking the adapter.
\<close>

theorem cache_key_collision:
  "cacheKey (''a-'' @ p) p m = cacheKey ''a'' p (p @ ''-'' @ m)
   \<and> ''a-'' @ p \<noteq> ''a'' \<and> m \<noteq> p @ ''-'' @ m
   \<and> \<not> inj (\<lambda>(text, provider, model). cacheKey text provider model)
   \<and> (apiConfig st1 = Some configs1 \<and> activeProvider st1 = Some p \<and> configs1 p = Some config1
      \<and> selectedModel config1 = Some m \<and> apiKey config1 = Some key1
      \<and> p \<noteq> [] \<and> m \<noteq> [] \<and> key1 \<noteq> []
      \<and> cache_get (responseCache w) (Date_now rt (ext w)) (cacheKey (''a-'' @ p) p m) = None
      \<and> apiProviders rt p = Some fetchResponse
      \<and> fetchResponse (''a-'' @ p) config1 (ext w) = (Inr answer, n1)
      \<and> apiConfig st2 = Some configs2 \<and> activeProvider st2 = Some p \<and> configs2 p = Some config2
      \<and> selectedModel config2 = Some (p @ ''-'' @ m) \<and> apiKey config2 = Some key2 \<and> key2 \<noteq> []
      \<and> responseCache w2 = responseCache (fetchAIResponse_body rt st1 (''a-'' @ p) tabId1 w)
      \<and> Date_now rt (ext w2) - Date_now rt n1 < 30 * 60 * 1000
      \<longrightarrow>
      fetchAIResponse_body rt st2 ''a'' tabId2 w2 =
        w2\<lparr>trace := trace w2 @ [ConsoleLog ''Cache hit, returning cached response'',
                                SendResponseToContent answer tabId2]\<rparr>)"
proof -
  have eq: "cacheKey (''a-'' @ p) p m = cacheKey ''a'' p (p @ ''-'' @ m)" for p m
    by (simp add: cacheKey_def)
  have len: "m \<noteq> p @ ''-'' @ m"
  proof
    assume "m = p @ ''-'' @ m"
    then have "length m = length (p @ ''-'' @ m)" by (rule arg_cong)
    then show False by simp
  qed
  have ninj: "\<not> inj (\<lambda>(text, provider, model). cacheKey text provider model)"
  proof
    assume "inj (\<lambda>(text, provider, model). cacheKey text provider model)"
    moreover have "(\<lambda>(text, provider, model). cacheKey text provider model) (''a-p'', ''p'', ''m'')
        = (\<lambda>(text, provider, model). cacheKey text provider model) (''a'', ''p'', ''p-m'')"
      by (simp add: cacheKey_def)
    ultimately have "(''a-p'', ''p'', ''m'') = (''a'', ''p'', ''p-m'')"
      by (rule injD)
    then show False by simp
  qed
  have disp: "fetchAIResponse_body rt st2 ''a'' tabId2 w2 =
        w2\<lparr>trace := trace w2 @ [ConsoleLog ''Cache hit, returning cached response'',
                                SendResponseToContent answer tabId2]\<rparr>"
    if h: "apiConfig st1 = Some configs1" "activeProvider st1 = Some p" "configs1 p = Some config1"
      "selectedModel config1 = Some m" "apiKey config1 = Some key1"
      "p \<noteq> []" "m \<noteq> []" "key1 \<noteq> []"
      "cache_get (responseCache w) (Date_now rt (ext w)) (cacheKey (''a-'' @ p) p m) = None"
      "apiProviders rt p = Some fetchResponse"
      "fetchResponse (''a-'' @ p) config1 (ext w) = (Inr answer, n1)"
      "apiConfig st2 = Some configs2" "activeProvider st2 = Some p" "configs2 p = Some config2"
      "selectedModel config2 = Some (p @ ''-'' @ m)" "apiKey config2 = Some key2" "key2 \<noteq> []"
      "responseCache w2 = responseCache (fetchAIResponse_body rt st1 (''a-'' @ p) tabId1 w)"
      "Date_now rt (ext w2) - Date_now rt n1 < 30 * 60 * 1000"
  proof -
    have m2: "p @ ''-'' @ m \<noteq> []" by simp
    have fresh: "Date_now rt (ext w2) - Date_now rt n1 < CACHE_EXPIRY"
      using h(19) by (simp add: CACHE_EXPIRY_def)
    from h(1-16) h(6) m2 h(17) eq [symmetric] h(18) fresh
    show ?thesis by (rule dispatch_then_hit)
  qed
  from eq len ninj disp show ?thesis by simp
qed

text \<open>
  Provider groq: the text a-groq is answered under model m; then model groq-m is
  selected and the text a is dispatched, 10 seconds after the store.
\<close>

theorem cache_key_collision_witness:
  "cacheKey ''a-groq'' ''groq'' ''m'' = cacheKey ''a'' ''groq'' ''groq-m''
   \<and> fetchAIResponse_body (example_runtime (Inr ''about a-groq'') True True)
       (example_storage ''groq'' ''groq-m'' ''gsk_1'') ''a'' 8
       \<lparr>responseCache = responseCache
          (fetchAIResponse_body (example_runtime (Inr ''about a-groq'') True True)
             (example_storage ''groq'' ''m'' ''gsk_1'') ''a-groq'' 7
             \<lparr>responseCache = Map.empty, trace = [], ext = 0\<rparr>),
        trace = [], ext = 10200\<rparr>
     = \<lparr>responseCache = [''a-groq-groq-m'' \<mapsto> \<lparr>data = ''about a-groq'', timestamp = 200\<rparr>],
        trace = [ConsoleLog ''Cache hit, returning cached response'',
                 SendResponseToContent ''about a-groq'' 8],
        ext = 10200\<rparr>"
  using cache_key_collision
    [where p = "''groq''" and m = "''m''"
       and rt = "example_runtime (Inr ''about a-groq'') True True"
       and ?st1.0 = "example_storage ''groq'' ''m'' ''gsk_1''"
       and ?st2.0 = "example_storage ''groq'' ''groq-m'' ''gsk_1''"
       and ?configs1.0 = "[''groq'' \<mapsto> \<lparr>selectedModel = Some ''m'', apiKey = Some ''gsk_1''\<rparr>]"
       and ?configs2.0 = "[''groq'' \<mapsto> \<lparr>selectedModel = Some ''groq-m'', apiKey = Some ''gsk_1''\<rparr>]"
       and ?config1.0 = "\<lparr>selectedModel = Some ''m'', apiKey = Some ''gsk_1''\<rparr>"
       and ?config2.0 = "\<lparr>selectedModel = Some ''groq-m'', apiKey = Some ''gsk_1''\<rparr>"
       and ?key1.0 = "''gsk_1''" and ?key2.0 = "''gsk_1''"
       and fetchResponse = "\<lambda>text config n. (Inr ''about a-groq'', n + 200)"
       and answer = "''about a-groq''" and ?n1.0 = 200 and ?tabId1.0 = 7 and ?tabId2.0 = 8
       and w = "\<lparr>responseCache = Map.empty, trace = [], ext = 0\<rparr>"
       and ?w2.0 = "\<lparr>responseCache = responseCache
          (fetchAIResponse_body (example_runtime (Inr ''about a-groq'') True True)
             (example_storage ''groq'' ''m'' ''gsk_1'') ''a-groq'' 7
             \<lparr>responseCache = Map.empty, trace = [], ext = 0\<rparr>),
        trace = [], ext = 10200\<rparr>"]
  by (simp add: example_runtime_def example_storage_def fetchAIResponse_body_def
      fetchAIResponse_try_def retryWithBackoff_def retryWithBackoff_loop.simps
      cache_get_def cache_put_def cacheKey_def CACHE_EXPIRY_def)

text \<open>
  Claim C7. Whenever the \<^verbatim>\<open>try\<close> block of the dispatch body ends with a thrown
  error, the body makes exactly one call of \<^verbatim>\<open>sendResponseToContent\<close>, with the
  string \<open>Error: \<close> followed by the error's message. Both kinds of terminal error end
  this way: an incomplete configuration throws one of the three configuration errors
  at once, and an adapter whose four invocations all throw makes the retry loop throw
  the fourth error, whose message is then delivered behind the marker.
\<close>

theorem terminal_error_delivery:
  "(fetchAIResponse_try rt st text tabId w = (Inl error, w1) \<longrightarrow>
      fetchAIResponse_body rt st text tabId w = fetchAIResponse_catch error tabId w1
      \<and> deliveries (trace (fetchAIResponse_body rt st text tabId w))
          = deliveries (trace w) @ [(''Error: '' @ message error, tabId)])
   \<and> (apiConfig st = None \<or> activeProvider st = None \<or> activeProvider st = Some []
       \<or> (\<exists>configs provider. apiConfig st = Some configs \<and> activeProvider st = Some provider
             \<and> (configs provider = None
                \<or> (\<exists>config. configs provider = Some config
                      \<and> (selectedModel config = None \<or> selectedModel config = Some []
                         \<or> apiKey config = None \<or> apiKey config = Some []))))
      \<longrightarrow> (\<exists>msg. fetchAIResponse_try rt st text tabId w = (Inl (Error msg), w)))
   \<and> (apiConfig st = Some configs \<and> activeProvider st = Some provider
       \<and> configs provider = Some config
       \<and> selectedModel config = Some model \<and> apiKey config = Some key
       \<and> provider \<noteq> [] \<and> model \<noteq> [] \<and> key \<noteq> []
       \<and> cache_get (responseCache w) (Date_now rt (ext w)) (cacheKey text provider model) = None
       \<and> apiProviders rt provider = Some fetchResponse
       \<and> fetchResponse text config (ext w) = (Inl e0, n0)
       \<and> fetchResponse text config (timer_wait rt 1000 n0) = (Inl e1, n1)
       \<and> fetchResponse text config (timer_wait rt 2000 n1) = (Inl e2, n2)
       \<and> fetchResponse text config (timer_wait rt 4000 n2) = (Inl e3, n3)
      \<longrightarrow> fetchAIResponse_body rt st text tabId w =
            w\<lparr>trace := trace w @ [ConsoleLog ''Making API request'',
                 Attempt, SetTimeout 1000, Attempt, SetTimeout 2000, Attempt, SetTimeout 4000,
                 Attempt, ConsoleError ''Error fetching from AI provider:'',
                 SendResponseToContent (''Error: '' @ message e3) tabId],
              ext := n3\<rparr>)"
proof (intro conjI impI)
  assume t: "fetchAIResponse_try rt st text tabId w = (Inl error, w1)"
  then show b: "fetchAIResponse_body rt st text tabId w = fetchAIResponse_catch error tabId w1"
    by (simp add: fetchAIResponse_body_def)
  from try_error_frame [OF t] have "deliveries (trace w1) = deliveries (trace w)" by simp
  then show "deliveries (trace (fetchAIResponse_body rt st text tabId w))
          = deliveries (trace w) @ [(''Error: '' @ message error, tabId)]"
    by (simp add: b fetchAIResponse_catch_def deliveries_append)
next
  assume "apiConfig st = None \<or> activeProvider st = None \<or> activeProvider st = Some []
       \<or> (\<exists>configs provider. apiConfig st = Some configs \<and> activeProvider st = Some provider
             \<and> (configs provider = None
                \<or> (\<exists>config. configs provider = Some config
                      \<and> (selectedModel config = None \<or> selectedModel config = Some []
                         \<or> apiKey config = None \<or> apiKey config = Some []))))"
  from try_config_error [OF this, of rt "text" tabId w]
  show "\<exists>msg. fetchAIResponse_try rt st text tabId w = (Inl (Error msg), w)" by blast
next
  assume h: "apiConfig st = Some configs \<and> activeProvider st = Some provider
       \<and> configs provider = Some config
       \<and> selectedModel config = Some model \<and> apiKey config = Some key
       \<and> provider \<noteq> [] \<and> model \<noteq> [] \<and> key \<noteq> []
       \<and> cache_get (responseCache w) (Date_now rt (ext w)) (cacheKey text provider model) = None
       \<and> apiProviders rt provider = Some fetchResponse
       \<and> fetchResponse text config (ext w) = (Inl e0, n0)
       \<and> fetchResponse text config (timer_wait rt 1000 n0) = (Inl e1, n1)
       \<and> fetchResponse text config (timer_wait rt 2000 n1) = (Inl e2, n2)
       \<and> fetchResponse text config (timer_wait rt 4000 n2) = (Inl e3, n3)"
  show "fetchAIResponse_body rt st text tabId w =
            w\<lparr>trace := trace w @ [ConsoleLog ''Making API request'',
                 Attempt, SetTimeout 1000, Attempt, SetTimeout 2000, Attempt, SetTimeout 4000,
                 Attempt, ConsoleError ''Error fetching from AI provider:'',
                 SendResponseToContent (''Error: '' @ message e3) tabId],
              ext := n3\<rparr>"
    by (rule body_miss_exhausted [of st configs provider config model key w rt "text"
          fetchResponse e0 n0 e1 n1 e2 n2 e3 n3 tabId]) (simp_all add: h)
qed

text \<open>
  The groq adapter answers every request with an authentication error: four
  invocations, three waits, and the message delivered behind the marker at 7800 ms.
  And a stored entry with an empty model name: the configuration error is delivered.
\<close>

theorem terminal_error_delivery_witness:
  "fetchAIResponse_body
      (example_runtime
         (Inl (Error ''Invalid API Key. Please check your API key in the extension settings.''))
         True True)
      (example_storage ''groq'' ''llama3-70b-8192'' ''gsk_bad'') ''hello'' 7
      \<lparr>responseCache = Map.empty, trace = [], ext = 0\<rparr>
    = \<lparr>responseCache = Map.empty,
       trace = [ConsoleLog ''Making API request'',
                Attempt, SetTimeout 1000, Attempt, SetTimeout 2000, Attempt, SetTimeout 4000,
                Attempt, ConsoleError ''Error fetching from AI provider:'',
                SendResponseToContent
                  ''Error: Invalid API Key. Please check your API key in the extension settings.'' 7],
       ext = 7800\<rparr>
   \<and> deliveries (trace (fetchAIResponse_body
      (example_runtime
         (Inl (Error ''Invalid API Key. Please check your API key in the extension settings.''))
         True True)
      (example_storage ''groq'' ''llama3-70b-8192'' ''gsk_bad'') ''hello'' 7
      \<lparr>responseCache = Map.empty, trace = [], ext = 0\<rparr>))
    = [(''Error: Invalid API Key. Please check your API key in the extension settings.'', 7)]
   \<and> deliveries (trace (fetchAIResponse_body (example_runtime (Inr ''hi'') True True)
      (example_storage ''groq'' [] ''gsk_1'') ''hello'' 7
      \<lparr>responseCache = Map.empty, trace = [], ext = 0\<rparr>))
    = [(''Error: No model selected. Please configure a model in the extension settings.'', 7)]"
  using terminal_error_delivery
    [where rt = "example_runtime
         (Inl (Error ''Invalid API Key. Please check your API key in the extension settings.''))
         True True"
       and st = "example_storage ''groq'' ''llama3-70b-8192'' ''gsk_bad''"
       and configs = "[''groq'' \<mapsto> \<lparr>selectedModel = Some ''llama3-70b-8192'', apiKey = Some ''gsk_bad''\<rparr>]"
       and provider = "''groq''"
       and config = "\<lparr>selectedModel = Some ''llama3-70b-8192'', apiKey = Some ''gsk_bad''\<rparr>"
       and model = "''llama3-70b-8192''" and key = "''gsk_bad''"
       and fetchResponse = "\<lambda>text config n.
         (Inl (Error ''Invalid API Key. Please check your API key in the extension settings.''), n + 200)"
       and ?text = "''hello''" and tabId = 7
       and w = "\<lparr>responseCache = Map.empty, trace = [], ext = 0\<rparr>"
       and error = "Error ''Invalid API Key. Please check your API key in the extension settings.''"
       and ?w1.0 = "\<lparr>responseCache = Map.empty,
          trace = [ConsoleLog ''Making API request'',
                Attempt, SetTimeout 1000, Attempt, SetTimeout 2000, Attempt, SetTimeout 4000,
                Attempt], ext = 7800\<rparr>"
       and ?e0.0 = "Error ''Invalid API Key. Please check your API key in the extension settings.''"
       and ?e1.0 = "Error ''Invalid API Key. Please check your API key in the extension settings.''"
       and ?e2.0 = "Error ''Invalid API Key. Please check your API key in the extension settings.''"
       and ?e3.0 = "Error ''Invalid API Key. Please check your API key in the extension settings.''"
       and ?n0.0 = 200 and ?n1.0 = 1400 and ?n2.0 = 3600 and ?n3.0 = 7800]
    terminal_error_delivery
    [where rt = "example_runtime (Inr ''hi'') True True"
       and st = "example_storage ''groq'' [] ''gsk_1''"
       and ?text = "''hello''" and tabId = 7
       and w = "\<lparr>responseCache = Map.empty, trace = [], ext = 0\<rparr>"
       and error = "Error ''No model selected. Please configure a model in the extension settings.''"
       and ?w1.0 = "\<lparr>responseCache = Map.empty, trace = [], ext = 0\<rparr>"]
  by (simp add: example_runtime_def example_storage_def cache_get_def
      fetchAIResponse_body_def fetchAIResponse_catch_def fetchAIResponse_try_def throw_def
      retryWithBackoff_def retryWithBackoff_loop.simps)

subsection \<open>Delivery\<close>

lemma timeouts_append: "timeouts (xs @ ys) = timeouts xs @ timeouts ys"
  by (induction xs rule: timeouts.induct) simp_all

lemma sends_append: "sends (xs @ ys) = sends xs + sends ys"
  by (induction xs rule: sends.induct) simp_all

lemma send_tab_gone:
  assumes "\<not> fst (tabs_get rt tabId (ext w))"
  shows "sendResponseToContent rt responseText tabId retries delay w =
     w\<lparr>trace := trace w @ [TabsGet tabId, ConsoleError ''Tab no longer exists:''],
       ext := snd (tabs_get rt tabId (ext w))\<rparr>"
  using assms
  by (subst sendResponseToContent.simps) (cases "tabs_get rt tabId (ext w)", simp)

lemma send_delivered:
  assumes "fst (tabs_get rt tabId (ext w))"
    and "fst (tabs_sendMessage rt tabId responseText (snd (tabs_get rt tabId (ext w))))"
  shows "sendResponseToContent rt responseText tabId retries delay w =
     w\<lparr>trace := trace w @ [TabsGet tabId, TabsSendMessage tabId responseText],
       ext := snd (tabs_sendMessage rt tabId responseText (snd (tabs_get rt tabId (ext w))))\<rparr>"
  using assms
  by (subst sendResponseToContent.simps)
     (cases "tabs_get rt tabId (ext w)",
      cases "tabs_sendMessage rt tabId responseText (snd (tabs_get rt tabId (ext w)))", simp)

lemma send_retry:
  assumes "fst (tabs_get rt tabId (ext w))"
    and "\<not> fst (tabs_sendMessage rt tabId responseText (snd (tabs_get rt tabId (ext w))))"
    and "retries > 0"
  shows "sendResponseToContent rt responseText tabId retries delay w =
     sendResponseToContent rt responseText tabId (retries - 1) (delay * 1.5)
       (w\<lparr>trace := trace w @
            [TabsGet tabId, TabsSendMessage tabId responseText,
             ConsoleWarn ''Error sending response to content script:'',
             ConsoleLog ''Retrying message sending'',
             SetTimeout delay],
          ext := timer_wait rt delay
                   (snd (tabs_sendMessage rt tabId responseText (snd (tabs_get rt tabId (ext w)))))\<rparr>)"
  using assms
  by (subst sendResponseToContent.simps)
     (cases "tabs_get rt tabId (ext w)",
      cases "tabs_sendMessage rt tabId responseText (snd (tabs_get rt tabId (ext w)))", simp)

lemma send_given_up:
  assumes "fst (tabs_get rt tabId (ext w))"
    and "\<not> fst (tabs_sendMessage rt tabId responseText (snd (tabs_get rt tabId (ext w))))"
    and "retries = 0"
  shows "sendResponseToContent rt responseText tabId retries delay w =
     w\<lparr>trace := trace w @
            [TabsGet tabId, TabsSendMessage tabId responseText,
             ConsoleWarn ''Error sending response to content script:'',
             ConsoleError ''Failed to send message after multiple attempts''],
       ext := snd (tabs_sendMessage rt tabId responseText (snd (tabs_get rt tabId (ext w))))\<rparr>"
  using assms
  by (subst sendResponseToContent.simps)
     (cases "tabs_get rt tabId (ext w)",
      cases "tabs_sendMessage rt tabId responseText (snd (tabs_get rt tabId (ext w)))", simp)

lemma upt_0_Suc: "[0..<Suc k] = 0 # map Suc [0..<k]"
  by (simp add: upt_conv_Cons map_Suc_upt del: upt_Suc)

lemma send_trace:
  "\<exists>evs k. k \<le> retries
      \<and> trace (sendResponseToContent rt responseText tabId retries delay w) = trace w @ evs
      \<and> timeouts evs = map (\<lambda>i. delay * (3 / 2) ^ i) [0..<k]
      \<and> sends evs \<le> Suc k
      \<and> deliveries evs = []
      \<and> responseCache (sendResponseToContent rt responseText tabId retries delay w) = responseCache w"
proof (induction retries arbitrary: delay w)
  case 0
  consider (gone) "\<not> fst (tabs_get rt tabId (ext w))"
    | (ok) "fst (tabs_get rt tabId (ext w))"
        "fst (tabs_sendMessage rt tabId responseText (snd (tabs_get rt tabId (ext w))))"
    | (fail) "fst (tabs_get rt tabId (ext w))"
        "\<not> fst (tabs_sendMessage rt tabId responseText (snd (tabs_get rt tabId (ext w))))"
    by blast
  then show ?case
  proof cases
    case gone
    show ?thesis
      by (rule exI [of _ "[TabsGet tabId, ConsoleError ''Tab no longer exists:'']"], rule exI [of _ 0])
         (simp add: send_tab_gone [OF gone])
  next
    case ok
    show ?thesis
      by (rule exI [of _ "[TabsGet tabId, TabsSendMessage tabId responseText]"], rule exI [of _ 0])
         (simp add: send_delivered [OF ok])
  next
    case fail
    show ?thesis
      by (rule exI [of _ "[TabsGet tabId, TabsSendMessage tabId responseText,
             ConsoleWarn ''Error sending response to content script:'',
             ConsoleError ''Failed to send message after multiple attempts'']"], rule exI [of _ 0])
         (simp add: send_given_up [OF fail])
  qed
next
  case (Suc n)
  consider (gone) "\<not> fst (tabs_get rt tabId (ext w))"
    | (ok) "fst (tabs_get rt tabId (ext w))"
        "fst (tabs_sendMessage rt tabId responseText (snd (tabs_get rt tabId (ext w))))"
    | (fail) "fst (tabs_get rt tabId (ext w))"
        "\<not> fst (tabs_sendMessage rt tabId responseText (snd (tabs_get rt tabId (ext w))))"
    by blast
  then show ?case
  proof cases
    case gone
    show ?thesis
      by (rule exI [of _ "[TabsGet tabId, ConsoleError ''Tab no longer exists:'']"], rule exI [of _ 0])
         (simp add: send_tab_gone [OF gone])
  next
    case ok
    show ?thesis
      by (rule exI [of _ "[TabsGet tabId, TabsSendMessage tabId responseText]"], rule exI [of _ 0])
         (simp add: send_delivered [OF ok])
  next
    case fail
    let ?pre = "[TabsGet tabId, TabsSendMessage tabId responseText,
             ConsoleWarn ''Error sending response to content script:'',
             ConsoleLog ''Retrying message sending'',
             SetTimeout delay]"
    let ?w1 = "w\<lparr>trace := trace w @ ?pre,
          ext := timer_wait rt delay
                   (snd (tabs_sendMessage rt tabId responseText (snd (tabs_get rt tabId (ext w)))))\<rparr>"
    have step: "sendResponseToContent rt responseText tabId (Suc n) delay w =
        sendResponseToContent rt responseText tabId n (delay * 1.5) ?w1"
      using send_retry [OF fail, of "Suc n" delay] by simp
    from Suc.IH [of "delay * 1.5" ?w1]
    obtain evs k where k: "k \<le> n"
      and tr: "trace (sendResponseToContent rt responseText tabId n (delay * 1.5) ?w1) = trace ?w1 @ evs"
      and to: "timeouts evs = map (\<lambda>i. delay * 1.5 * (3 / 2) ^ i) [0..<k]"
      and se: "sends evs \<le> Suc k"
      and de: "deliveries evs = []"
      and ca: "responseCache (sendResponseToContent rt responseText tabId n (delay * 1.5) ?w1)
                 = responseCache ?w1"
      by blast
    have "timeouts (?pre @ evs) = map (\<lambda>i. delay * (3 / 2) ^ i) [0..<Suc k]"
      by (simp add: to upt_0_Suc del: upt_Suc)
    moreover have "sends (?pre @ evs) \<le> Suc (Suc k)" using se by simp
    moreover have "deliveries (?pre @ evs) = []" using de by simp
    ultimately show ?thesis
      using k tr ca
      by (intro exI [of _ "?pre @ evs"] exI [of _ "Suc k"]) (simp add: step)
  qed
qed

lemma default_delays:
  assumes "k \<le> 3"
  shows "map (\<lambda>i. 500 * (3 / 2) ^ i) [0..<k] = take k [500, 750, 1125 :: rat]"
proof -
  from assms consider "k = 0" | "k = 1" | "k = 2" | "k = 3" by linarith
  then show ?thesis
  proof cases
    case 1 then show ?thesis by simp
  next
    case 2 then show ?thesis by simp
  next
    case 3 then show ?thesis by (simp add: numeral_2_eq_2)
  next
    case 4 then show ?thesis by (simp add: numeral_3_eq_3 power2_eq_square)
  qed
qed

lemma send_retry_Suc:
  assumes "fst (tabs_get rt tabId (ext w))"
    and "\<not> fst (tabs_sendMessage rt tabId responseText (snd (tabs_get rt tabId (ext w))))"
  shows "sendResponseToContent rt responseText tabId (Suc r) delay w =
     sendResponseToContent rt responseText tabId r (delay * 1.5)
       (w\<lparr>trace := trace w @
            [TabsGet tabId, TabsSendMessage tabId responseText,
             ConsoleWarn ''Error sending response to content script:'',
             ConsoleLog ''Retrying message sending'',
             SetTimeout delay],
          ext := timer_wait rt delay
                   (snd (tabs_sendMessage rt tabId responseText (snd (tabs_get rt tabId (ext w)))))\<rparr>)"
  using send_retry [OF assms, of "Suc r" delay] by simp

lemma send_given_up_0:
  assumes "fst (tabs_get rt tabId (ext w))"
    and "\<not> fst (tabs_sendMessage rt tabId responseText (snd (tabs_get rt tabId (ext w))))"
  shows "sendResponseToContent rt responseText tabId 0 delay w =
     w\<lparr>trace := trace w @
            [TabsGet tabId, TabsSendMessage tabId responseText,
             ConsoleWarn ''Error sending response to content script:'',
             ConsoleError ''Failed to send message after multiple attempts''],
       ext := snd (tabs_sendMessage rt tabId responseText (snd (tabs_get rt tabId (ext w))))\<rparr>"
  using send_given_up [OF assms, of 0 delay] by simp

text \<open>
  Claim C6. A delivery made with the default parameters is a run of at most four
  attempts. An attempt looks the tab up: when the tab is gone the delivery ends with
  an error written to the console; when the tab is there the message is sent. A send
  that succeeds ends the delivery. A send that fails is followed, on the first three
  attempts, by a timer and the next attempt, with the delays 500, 750 and 1125 ms in
  this order; on the fourth attempt it is followed by an error written to the console,
  and the delivery ends. The nine runs this allows are listed with the world each
  returns; the hypotheses of a run speak only of the outside states the run reaches.
  Whatever the tab and the content script do, the function returns a world (nothing
  is thrown) whose cache is the one it was given, sets at most three timers and sends
  at most one message more than it sets timers.
\<close>

theorem delivery_bounded_retry:
  "(\<exists>evs k. k \<le> 3
       \<and> trace (sendResponseToContent_defaults rt responseText tabId w) = trace w @ evs
       \<and> timeouts evs = take k [500, 750, 1125]
       \<and> sorted_wrt (<) (timeouts evs)
       \<and> sends evs \<le> k + 1
       \<and> deliveries evs = [])
   \<and> responseCache (sendResponseToContent_defaults rt responseText tabId w) = responseCache w
   \<and> (tabs_get rt tabId (ext w) = (False, a0)
      \<longrightarrow> sendResponseToContent_defaults rt responseText tabId w =
           w\<lparr>trace := trace w @
                [TabsGet tabId, ConsoleError ''Tab no longer exists:''],
             ext := a0\<rparr>)
   \<and> (tabs_get rt tabId (ext w) = (True, a0)
      \<and> tabs_sendMessage rt tabId responseText a0 = (True, b0)
      \<longrightarrow> sendResponseToContent_defaults rt responseText tabId w =
           w\<lparr>trace := trace w @
                [TabsGet tabId, TabsSendMessage tabId responseText],
             ext := b0\<rparr>)
   \<and> (tabs_get rt tabId (ext w) = (True, a0)
      \<and> tabs_sendMessage rt tabId responseText a0 = (False, b0)
      \<and> tabs_get rt tabId (timer_wait rt 500 b0) = (False, a1)
      \<longrightarrow> sendResponseToContent_defaults rt responseText tabId w =
           w\<lparr>trace := trace w @
                [TabsGet tabId, TabsSendMessage tabId responseText,
                 ConsoleWarn ''Error sending response to content script:'',
                 ConsoleLog ''Retrying message sending'', SetTimeout 500,
                 TabsGet tabId, ConsoleError ''Tab no longer exists:''],
             ext := a1\<rparr>)
   \<and> (tabs_get rt tabId (ext w) = (True, a0)
      \<and> tabs_sendMessage rt tabId responseText a0 = (False, b0)
      \<and> tabs_get rt tabId (timer_wait rt 500 b0) = (True, a1)
      \<and> tabs_sendMessage rt tabId responseText a1 = (True, b1)
      \<longrightarrow> sendResponseToContent_defaults rt responseText tabId w =
           w\<lparr>trace := trace w @
                [TabsGet tabId, TabsSendMessage tabId responseText,
                 ConsoleWarn ''Error sending response to content script:'',
                 ConsoleLog ''Retrying message sending'', SetTimeout 500,
                 TabsGet tabId, TabsSendMessage tabId responseText],
             ext := b1\<rparr>)
   \<and> (tabs_get rt tabId (ext w) = (True, a0)
      \<and> tabs_sendMessage rt tabId responseText a0 = (False, b0)
      \<and> tabs_get rt tabId (timer_wait rt 500 b0) = (True, a1)
      \<and> tabs_sendMessage rt tabId responseText a1 = (False, b1)
      \<and> tabs_get rt tabId (timer_wait rt 750 b1) = (False, a2)
      \<longrightarrow> sendResponseToContent_defaults rt responseText tabId w =
           w\<lparr>trace := trace w @
                [TabsGet tabId, TabsSendMessage tabId responseText,
                 ConsoleWarn ''Error sending response to content script:'',
                 ConsoleLog ''Retrying message sending'', SetTimeout 500,
                 TabsGet tabId, TabsSendMessage tabId responseText,
                 ConsoleWarn ''Error sending response to content script:'',
                 ConsoleLog ''Retrying message sending'', SetTimeout 750,
                 TabsGet tabId, ConsoleError ''Tab no longer exists:''],
             ext := a2\<rparr>)
   \<and> (tabs_get rt tabId (ext w) = (True, a0)
      \<and> tabs_sendMessage rt tabId responseText a0 = (False, b0)
      \<and> tabs_get rt tabId (timer_wait rt 500 b0) = (True, a1)
      \<and> tabs_sendMessage rt tabId responseText a1 = (False, b1)
      \<and> tabs_get rt tabId (timer_wait rt 750 b1) = (True, a2)
      \<and> tabs_sendMessage rt tabId responseText a2 = (True, b2)
      \<longrightarrow> sendResponseToContent_defaults rt responseText tabId w =
           w\<lparr>trace := trace w @
                [TabsGet tabId, TabsSendMessage tabId responseText,
                 ConsoleWarn ''Error sending response to content script:'',
                 ConsoleLog ''Retrying message sending'', SetTimeout 500,
                 TabsGet tabId, TabsSendMessage tabId responseText,
                 ConsoleWarn ''Error sending response to content script:'',
                 ConsoleLog ''Retrying message sending'', SetTimeout 750,
                 TabsGet tabId, TabsSendMessage tabId responseText],
             ext := b2\<rparr>)
   \<and> (tabs_get rt tabId (ext w) = (True, a0)
      \<and> tabs_sendMessage rt tabId responseText a0 = (False, b0)
      \<and> tabs_get rt tabId (timer_wait rt 500 b0) = (True, a1)
      \<and> tabs_sendMessage rt tabId responseText a1 = (False, b1)
      \<and> tabs_get rt tabId (timer_wait rt 750 b1) = (True, a2)
      \<and> tabs_sendMessage rt tabId responseText a2 = (False, b2)
      \<and> tabs_get rt tabId (timer_wait rt 1125 b2) = (False, a3)
      \<longrightarrow> sendResponseToContent_defaults rt responseText tabId w =
           w\<lparr>trace := trace w @
                [TabsGet tabId, TabsSendMessage tabId responseText,
                 ConsoleWarn ''Error sending response to content script:'',
                 ConsoleLog ''Retrying message sending'', SetTimeout 500,
                 TabsGet tabId, TabsSendMessage tabId responseText,
                 ConsoleWarn ''Error sending response to content script:'',
                 ConsoleLog ''Retrying message sending'', SetTimeout 750,
                 TabsGet tabId, TabsSendMessage tabId responseText,
                 ConsoleWarn ''Error sending response to content script:'',
                 ConsoleLog ''Retrying message sending'', SetTimeout 1125,
                 TabsGet tabId, ConsoleError ''Tab no longer exists:''],
             ext := a3\<rparr>)
   \<and> (tabs_get rt tabId (ext w) = (True, a0)
      \<and> tabs_sendMessage rt tabId responseText a0 = (False, b0)
      \<and> tabs_get rt tabId (timer_wait rt 500 b0) = (True, a1)
      \<and> tabs_sendMessage rt tabId responseText a1 = (False, b1)
      \<and> tabs_get rt tabId (timer_wait rt 750 b1) = (True, a2)
      \<and> tabs_sendMessage rt tabId responseText a2 = (False, b2)
      \<and> tabs_get rt tabId (timer_wait rt 1125 b2) = (True, a3)
      \<and> tabs_sendMessage rt tabId responseText a3 = (True, b3)
      \<longrightarrow> sendResponseToContent_defaults rt responseText tabId w =
           w\<lparr>trace := trace w @
                [TabsGet tabId, TabsSendMessage tabId responseText,
                 ConsoleWarn ''Error sending response to content script:'',
                 ConsoleLog ''Retrying message sending'', SetTimeout 500,
                 TabsGet tabId, TabsSendMessage tabId responseText,
                 ConsoleWarn ''Error sending response to content script:'',
                 ConsoleLog ''Retrying message sending'', SetTimeout 750,
                 TabsGet tabId, TabsSendMessage tabId responseText,
                 ConsoleWarn ''Error sending response to content script:'',
                 ConsoleLog ''Retrying message sending'', SetTimeout 1125,
                 TabsGet tabId, TabsSendMessage tabId responseText],
             ext := b3\<rparr>)
   \<and> (tabs_get rt tabId (ext w) = (True, a0)
      \<and> tabs_sendMessage rt tabId responseText a0 = (False, b0)
      \<and> tabs_get rt tabId (timer_wait rt 500 b0) = (True, a1)
      \<and> tabs_sendMessage rt tabId responseText a1 = (False, b1)
      \<and> tabs_get rt tabId (timer_wait rt 750 b1) = (True, a2)
      \<and> tabs_sendMessage rt tabId responseText a2 = (False, b2)
      \<and> tabs_get rt tabId (timer_wait rt 1125 b2) = (True, a3)
      \<and> tabs_sendMessage rt tabId responseText a3 = (False, b3)
      \<longrightarrow> sendResponseToContent_defaults rt responseText tabId w =
           w\<lparr>trace := trace w @
                [TabsGet tabId, TabsSendMessage tabId responseText,
                 ConsoleWarn ''Error sending response to content script:'',
                 ConsoleLog ''Retrying message sending'', SetTimeout 500,
                 TabsGet tabId, TabsSendMessage tabId responseText,
                 ConsoleWarn ''Error sending response to content script:'',
                 ConsoleLog ''Retrying message sending'', SetTimeout 750,
                 TabsGet tabId, TabsSendMessage tabId responseText,
                 ConsoleWarn ''Error sending response to content script:'',
                 ConsoleLog ''Retrying message sending'', SetTimeout 1125,
                 TabsGet tabId, TabsSendMessage tabId responseText,
                 ConsoleWarn ''Error sending response to content script:'',
                 ConsoleError ''Failed to send message after multiple attempts''],
             ext := b3\<rparr>)"
proof (intro conjI impI)
  from send_trace [of 3 rt responseText tabId 500 w]
  obtain evs k where k: "k \<le> 3"
    and tr: "trace (sendResponseToContent rt responseText tabId 3 500 w) = trace w @ evs"
    and to: "timeouts evs = map (\<lambda>i. 500 * (3 / 2) ^ i) [0..<k]"
    and se: "sends evs \<le> Suc k" and de: "deliveries evs = []"
    and ca: "responseCache (sendResponseToContent rt responseText tabId 3 500 w) = responseCache w"
    by blast
  from to k have to': "timeouts evs = take k [500, 750, 1125]"
    by (simp add: default_delays)
  have "sorted_wrt (<) [500, 750, 1125 :: rat]" by simp
  then have "sorted_wrt (<) (take k [500, 750, 1125 :: rat])" by (rule sorted_wrt_take)
  with k tr to' se de
  show "\<exists>evs k. k \<le> 3
       \<and> trace (sendResponseToContent_defaults rt responseText tabId w) = trace w @ evs
       \<and> timeouts evs = take k [500, 750, 1125]
       \<and> sorted_wrt (<) (timeouts evs)
       \<and> sends evs \<le> k + 1
       \<and> deliveries evs = []"
    by (intro exI [of _ evs] exI [of _ k]) (simp add: sendResponseToContent_defaults_def)
  from ca show "responseCache (sendResponseToContent_defaults rt responseText tabId w) = responseCache w"
    by (simp add: sendResponseToContent_defaults_def)
next
  assume "tabs_get rt tabId (ext w) = (False, a0)"
  then show "sendResponseToContent_defaults rt responseText tabId w =
      w\<lparr>trace := trace w @
           [TabsGet tabId, ConsoleError ''Tab no longer exists:''],
        ext := a0\<rparr>"
    by (simp add: sendResponseToContent_defaults_def numeral_3_eq_3 send_retry_Suc
        send_tab_gone send_delivered send_given_up_0)
next
  assume "tabs_get rt tabId (ext w) = (True, a0)
      \<and> tabs_sendMessage rt tabId responseText a0 = (True, b0)"
  then show "sendResponseToContent_defaults rt responseText tabId w =
      w\<lparr>trace := trace w @
           [TabsGet tabId, TabsSendMessage tabId responseText],
        ext := b0\<rparr>"
    by (simp add: sendResponseToContent_defaults_def numeral_3_eq_3 send_retry_Suc
        send_tab_gone send_delivered send_given_up_0)
next
  assume "tabs_get rt tabId (ext w) = (True, a0)
      \<and> tabs_sendMessage rt tabId responseText a0 = (False, b0)
      \<and> tabs_get rt tabId (timer_wait rt 500 b0) = (False, a1)"
  then show "sendResponseToContent_defaults rt responseText tabId w =
      w\<lparr>trace := trace w @
           [TabsGet tabId, TabsSendMessage tabId responseText,
            ConsoleWarn ''Error sending response to content script:'',
            ConsoleLog ''Retrying message sending'', SetTimeout 500,
            TabsGet tabId, ConsoleError ''Tab no longer exists:''],
        ext := a1\<rparr>"
    by (simp add: sendResponseToContent_defaults_def numeral_3_eq_3 send_retry_Suc
        send_tab_gone send_delivered send_given_up_0)
next
  assume "tabs_get rt tabId (ext w) = (True, a0)
      \<and> tabs_sendMessage rt tabId responseText a0 = (False, b0)
      \<and> tabs_get rt tabId (timer_wait rt 500 b0) = (True, a1)
      \<and> tabs_sendMessage rt tabId responseText a1 = (True, b1)"
  then show "sendResponseToContent_defaults rt responseText tabId w =
      w\<lparr>trace := trace w @
           [TabsGet tabId, TabsSendMessage tabId responseText,
            ConsoleWarn ''Error sending response to content script:'',
            ConsoleLog ''Retrying message sending'', SetTimeout 500,
            TabsGet tabId, TabsSendMessage tabId responseText],
        ext := b1\<rparr>"
    by (simp add: sendResponseToContent_defaults_def numeral_3_eq_3 send_retry_Suc
        send_tab_gone send_delivered send_given_up_0)
next
  assume "tabs_get rt tabId (ext w) = (True, a0)
      \<and> tabs_sendMessage rt tabId responseText a0 = (False, b0)
      \<and> tabs_get rt tabId (timer_wait rt 500 b0) = (True, a1)
      \<and> tabs_sendMessage rt tabId responseText a1 = (False, b1)
      \<and> tabs_get rt tabId (timer_wait rt 750 b1) = (False, a2)"
  then show "sendResponseToContent_defaults rt responseText tabId w =
      w\<lparr>trace := trace w @
           [TabsGet tabId, TabsSendMessage tabId responseText,
            ConsoleWarn ''Error sending response to content script:'',
            ConsoleLog ''Retrying message sending'', SetTimeout 500,
            TabsGet tabId, TabsSendMessage tabId responseText,
            ConsoleWarn ''Error sending response to content script:'',
            ConsoleLog ''Retrying message sending'', SetTimeout 750,
            TabsGet tabId, ConsoleError ''Tab no longer exists:''],
        ext := a2\<rparr>"
    by (simp add: sendResponseToContent_defaults_def numeral_3_eq_3 send_retry_Suc
        send_tab_gone send_delivered send_given_up_0)
next
  assume "tabs_get rt tabId (ext w) = (True, a0)
      \<and> tabs_sendMessage rt tabId responseText a0 = (False, b0)
      \<and> tabs_get rt tabId (timer_wait rt 500 b0) = (True, a1)
      \<and> tabs_sendMessage rt tabId responseText a1 = (False, b1)
      \<and> tabs_get rt tabId (timer_wait rt 750 b1) = (True, a2)
      \<and> tabs_sendMessage rt tabId responseText a2 = (True, b2)"
  then show "sendResponseToContent_defaults rt responseText tabId w =
      w\<lparr>trace := trace w @
           [TabsGet tabId, TabsSendMessage tabId responseText,
            ConsoleWarn ''Error sending response to content script:'',
            ConsoleLog ''Retrying message sending'', SetTimeout 500,
            TabsGet tabId, TabsSendMessage tabId responseText,
            ConsoleWarn ''Error sending response to content script:'',
            ConsoleLog ''Retrying message sending'', SetTimeout 750,
            TabsGet tabId, TabsSendMessage tabId responseText],
        ext := b2\<rparr>"
    by (simp add: sendResponseToContent_defaults_def numeral_3_eq_3 send_retry_Suc
        send_tab_gone send_delivered send_given_up_0)
next
  assume "tabs_get rt tabId (ext w) = (True, a0)
      \<and> tabs_sendMessage rt tabId responseText a0 = (False, b0)
      \<and> tabs_get rt tabId (timer_wait rt 500 b0) = (True, a1)
      \<and> tabs_sendMessage rt tabId responseText a1 = (False, b1)
      \<and> tabs_get rt tabId (timer_wait rt 750 b1) = (True, a2)
      \<and> tabs_sendMessage rt tabId responseText a2 = (False, b2)
      \<and> tabs_get rt tabId (timer_wait rt 1125 b2) = (False, a3)"
  then show "sendResponseToContent_defaults rt responseText tabId w =
      w\<lparr>trace := trace w @
           [TabsGet tabId, TabsSendMessage tabId responseText,
            ConsoleWarn ''Error sending response to content script:'',
            ConsoleLog ''Retrying message sending'', SetTimeout 500,
            TabsGet tabId, TabsSendMessage tabId responseText,
            ConsoleWarn ''Error sending response to content script:'',
            ConsoleLog ''Retrying message sending'', SetTimeout 750,
            TabsGet tabId, TabsSendMessage tabId responseText,
            ConsoleWarn ''Error sending response to content script:'',
            ConsoleLog ''Retrying message sending'', SetTimeout 1125,
            TabsGet tabId, ConsoleError ''Tab no longer exists:''],
        ext := a3\<rparr>"
    by (simp add: sendResponseToContent_defaults_def numeral_3_eq_3 send_retry_Suc
        send_tab_gone send_delivered send_given_up_0)
next
  assume "tabs_get rt tabId (ext w) = (True, a0)
      \<and> tabs_sendMessage rt tabId responseText a0 = (False, b0)
      \<and> tabs_get rt tabId (timer_wait rt 500 b0) = (True, a1)
      \<and> tabs_sendMessage rt tabId responseText a1 = (False, b1)
      \<and> tabs_get rt tabId (timer_wait rt 750 b1) = (True, a2)
      \<and> tabs_sendMessage rt tabId responseText a2 = (False, b2)
      \<and> tabs_get rt tabId (timer_wait rt 1125 b2) = (True, a3)
      \<and> tabs_sendMessage rt tabId responseText a3 = (True, b3)"
  then show "sendResponseToContent_defaults rt responseText tabId w =
      w\<lparr>trace := trace w @
           [TabsGet tabId, TabsSendMessage tabId responseText,
            ConsoleWarn ''Error sending response to content script:'',
            ConsoleLog ''Retrying message sending'', SetTimeout 500,
            TabsGet tabId, TabsSendMessage tabId responseText,
            ConsoleWarn ''Error sending response to content script:'',
            ConsoleLog ''Retrying message sending'', SetTimeout 750,
            TabsGet tabId, TabsSendMessage tabId responseText,
            ConsoleWarn ''Error sending response to content script:'',
            ConsoleLog ''Retrying message sending'', SetTimeout 1125,
            TabsGet tabId, TabsSendMessage tabId responseText],
        ext := b3\<rparr>"
    by (simp add: sendResponseToContent_defaults_def numeral_3_eq_3 send_retry_Suc
        send_tab_gone send_delivered send_given_up_0)
next
  assume "tabs_get rt tabId (ext w) = (True, a0)
      \<and> tabs_sendMessage rt tabId responseText a0 = (False, b0)
      \<and> tabs_get rt tabId (timer_wait rt 500 b0) = (True, a1)
      \<and> tabs_sendMessage rt tabId responseText a1 = (False, b1)
      \<and> tabs_get rt tabId (timer_wait rt 750 b1) = (True, a2)
      \<and> tabs_sendMessage rt tabId responseText a2 = (False, b2)
      \<and> tabs_get rt tabId (timer_wait rt 1125 b2) = (True, a3)
      \<and> tabs_sendMessage rt tabId responseText a3 = (False, b3)"
  then show "sendResponseToContent_defaults rt responseText tabId w =
      w\<lparr>trace := trace w @
           [TabsGet tabId, TabsSendMessage tabId responseText,
            ConsoleWarn ''Error sending response to content script:'',
            ConsoleLog ''Retrying message sending'', SetTimeout 500,
            TabsGet tabId, TabsSendMessage tabId responseText,
            ConsoleWarn ''Error sending response to content script:'',
            ConsoleLog ''Retrying message sending'', SetTimeout 750,
            TabsGet tabId, TabsSendMessage tabId responseText,
            ConsoleWarn ''Error sending response to content script:'',
            ConsoleLog ''Retrying message sending'', SetTimeout 1125,
            TabsGet tabId, TabsSendMessage tabId responseText,
            ConsoleWarn ''Error sending response to content script:'',
            ConsoleError ''Failed to send message after multiple attempts''],
        ext := b3\<rparr>"
    by (simp add: sendResponseToContent_defaults_def numeral_3_eq_3 send_retry_Suc
        send_tab_gone send_delivered send_given_up_0)
qed

text \<open>
  The nine runs with the clock as outside state: the attempts are made at 0, 500,
  1250 and 2375 ms. The tab is gone from the time of the first, second, third or
  fourth attempt on; or the content script answers from that time on; or it never
  answers. The cache holds an entry in every run and keeps it.
\<close>

theorem delivery_bounded_retry_witness:
  "sendResponseToContent_defaults
      (clocked_runtime (\<lambda>n. Inr ''hi'') (\<lambda>n. n < 0) (\<lambda>n. 10000 \<le> n)) ''hi'' 7
      \<lparr>responseCache = [''k'' \<mapsto> \<lparr>data = ''v'', timestamp = 0\<rparr>], trace = [], ext = 0\<rparr>
    = \<lparr>responseCache = [''k'' \<mapsto> \<lparr>data = ''v'', timestamp = 0\<rparr>],
       trace =
         [TabsGet 7, ConsoleError ''Tab no longer exists:''],
       ext = 0\<rparr>
   \<and> sendResponseToContent_defaults
      (clocked_runtime (\<lambda>n. Inr ''hi'') (\<lambda>n. n < 10000) (\<lambda>n. 0 \<le> n)) ''hi'' 7
      \<lparr>responseCache = [''k'' \<mapsto> \<lparr>data = ''v'', timestamp = 0\<rparr>], trace = [], ext = 0\<rparr>
    = \<lparr>responseCache = [''k'' \<mapsto> \<lparr>data = ''v'', timestamp = 0\<rparr>],
       trace =
         [TabsGet 7, TabsSendMessage 7 ''hi''],
       ext = 0\<rparr>
   \<and> sendResponseToContent_defaults
      (clocked_runtime (\<lambda>n. Inr ''hi'') (\<lambda>n. n < 500) (\<lambda>n. 10000 \<le> n)) ''hi'' 7
      \<lparr>responseCache = [''k'' \<mapsto> \<lparr>data = ''v'', timestamp = 0\<rparr>], trace = [], ext = 0\<rparr>
    = \<lparr>responseCache = [''k'' \<mapsto> \<lparr>data = ''v'', timestamp = 0\<rparr>],
       trace =
         [TabsGet 7, TabsSendMessage 7 ''hi'',
          ConsoleWarn ''Error sending response to content script:'',
          ConsoleLog ''Retrying message sending'', SetTimeout 500, TabsGet 7,
          ConsoleError ''Tab no longer exists:''],
       ext = 500\<rparr>
   \<and> sendResponseToContent_defaults
      (clocked_runtime (\<lambda>n. Inr ''hi'') (\<lambda>n. n < 10000) (\<lambda>n. 500 \<le> n)) ''hi'' 7
      \<lparr>responseCache = [''k'' \<mapsto> \<lparr>data = ''v'', timestamp = 0\<rparr>], trace = [], ext = 0\<rparr>
    = \<lparr>responseCache = [''k'' \<mapsto> \<lparr>data = ''v'', timestamp = 0\<rparr>],
       trace =
         [TabsGet 7, TabsSendMessage 7 ''hi'',
          ConsoleWarn ''Error sending response to content script:'',
          ConsoleLog ''Retrying message sending'', SetTimeout 500, TabsGet 7,
          TabsSendMessage 7 ''hi''],
       ext = 500\<rparr>
   \<and> sendResponseToContent_defaults
      (clocked_runtime (\<lambda>n. Inr ''hi'') (\<lambda>n. n < 1250) (\<lambda>n. 10000 \<le> n)) ''hi'' 7
      \<lparr>responseCache = [''k'' \<mapsto> \<lparr>data = ''v'', timestamp = 0\<rparr>], trace = [], ext = 0\<rparr>
    = \<lparr>responseCache = [''k'' \<mapsto> \<lparr>data = ''v'', timestamp = 0\<rparr>],
       trace =
         [TabsGet 7, TabsSendMessage 7 ''hi'',
          ConsoleWarn ''Error sending response to content script:'',
          ConsoleLog ''Retrying message sending'', SetTimeout 500, TabsGet 7,
          TabsSendMessage 7 ''hi'',
          ConsoleWarn ''Error sending response to content script:'',
          ConsoleLog ''Retrying message sending'', SetTimeout 750, TabsGet 7,
          ConsoleError ''Tab no longer exists:''],
       ext = 1250\<rparr>
   \<and> sendResponseToContent_defaults
      (clocked_runtime (\<lambda>n. Inr ''hi'') (\<lambda>n. n < 10000) (\<lambda>n. 1250 \<le> n)) ''hi'' 7
      \<lparr>responseCache = [''k'' \<mapsto> \<lparr>data = ''v'', timestamp = 0\<rparr>], trace = [], ext = 0\<rparr>
    = \<lparr>responseCache = [''k'' \<mapsto> \<lparr>data = ''v'', timestamp = 0\<rparr>],
       trace =
         [TabsGet 7, TabsSendMessage 7 ''hi'',
          ConsoleWarn ''Error sending response to content script:'',
          ConsoleLog ''Retrying message sending'', SetTimeout 500, TabsGet 7,
          TabsSendMessage 7 ''hi'',
          ConsoleWarn ''Error sending response to content script:'',
          ConsoleLog ''Retrying message sending'', SetTimeout 750, TabsGet 7,
          TabsSendMessage 7 ''hi''],
       ext = 1250\<rparr>
   \<and> sendResponseToContent_defaults
      (clocked_runtime (\<lambda>n. Inr ''hi'') (\<lambda>n. n < 2375) (\<lambda>n. 10000 \<le> n)) ''hi'' 7
      \<lparr>responseCache = [''k'' \<mapsto> \<lparr>data = ''v'', timestamp = 0\<rparr>], trace = [], ext = 0\<rparr>
    = \<lparr>responseCache = [''k'' \<mapsto> \<lparr>data = ''v'', timestamp = 0\<rparr>],
       trace =
         [TabsGet 7, TabsSendMessage 7 ''hi'',
          ConsoleWarn ''Error sending response to content script:'',
          ConsoleLog ''Retrying message sending'', SetTimeout 500, TabsGet 7,
          TabsSendMessage 7 ''hi'',
          ConsoleWarn ''Error sending response to content script:'',
          ConsoleLog ''Retrying message sending'', SetTimeout 750, TabsGet 7,
          TabsSendMessage 7 ''hi'',
          ConsoleWarn ''Error sending response to content script:'',
          ConsoleLog ''Retrying message sending'', SetTimeout 1125, TabsGet 7,
          ConsoleError ''Tab no longer exists:''],
       ext = 2375\<rparr>
   \<and> sendResponseToContent_defaults
      (clocked_runtime (\<lambda>n. Inr ''hi'') (\<lambda>n. n < 10000) (\<lambda>n. 2375 \<le> n)) ''hi'' 7
      \<lparr>responseCache = [''k'' \<mapsto> \<lparr>data = ''v'', timestamp = 0\<rparr>], trace = [], ext = 0\<rparr>
    = \<lparr>responseCache = [''k'' \<mapsto> \<lparr>data = ''v'', timestamp = 0\<rparr>],
       trace =
         [TabsGet 7, TabsSendMessage 7 ''hi'',
          ConsoleWarn ''Error sending response to content script:'',
          ConsoleLog ''Retrying message sending'', SetTimeout 500, TabsGet 7,
          TabsSendMessage 7 ''hi'',
          ConsoleWarn ''Error sending response to content script:'',
          ConsoleLog ''Retrying message sending'', SetTimeout 750, TabsGet 7,
          TabsSendMessage 7 ''hi'',
          ConsoleWarn ''Error sending response to content script:'',
          ConsoleLog ''Retrying message sending'', SetTimeout 1125, TabsGet 7,
          TabsSendMessage 7 ''hi''],
       ext = 2375\<rparr>
   \<and> sendResponseToContent_defaults
      (clocked_runtime (\<lambda>n. Inr ''hi'') (\<lambda>n. n < 10000) (\<lambda>n. 10000 \<le> n)) ''hi'' 7
      \<lparr>responseCache = [''k'' \<mapsto> \<lparr>data = ''v'', timestamp = 0\<rparr>], trace = [], ext = 0\<rparr>
    = \<lparr>responseCache = [''k'' \<mapsto> \<lparr>data = ''v'', timestamp = 0\<rparr>],
       trace =
         [TabsGet 7, TabsSendMessage 7 ''hi'',
          ConsoleWarn ''Error sending response to content script:'',
          ConsoleLog ''Retrying message sending'', SetTimeout 500, TabsGet 7,
          TabsSendMessage 7 ''hi'',
          ConsoleWarn ''Error sending response to content script:'',
          ConsoleLog ''Retrying message sending'', SetTimeout 750, TabsGet 7,
          TabsSendMessage 7 ''hi'',
          ConsoleWarn ''Error sending response to content script:'',
          ConsoleLog ''Retrying message sending'', SetTimeout 1125, TabsGet 7,
          TabsSendMessage 7 ''hi'',
          ConsoleWarn ''Error sending response to content script:'',
          ConsoleError ''Failed to send message after multiple attempts''],
       ext = 2375\<rparr>"
proof -
  have r1: "sendResponseToContent_defaults
          (clocked_runtime (\<lambda>n. Inr ''hi'') (\<lambda>n. n < 0) (\<lambda>n. 10000 \<le> n)) ''hi'' 7
          \<lparr>responseCache = [''k'' \<mapsto> \<lparr>data = ''v'', timestamp = 0\<rparr>], trace = [], ext = 0\<rparr>
      = \<lparr>responseCache = [''k'' \<mapsto> \<lparr>data = ''v'', timestamp = 0\<rparr>],
           trace =
             [TabsGet 7, ConsoleError ''Tab no longer exists:''],
           ext = 0\<rparr>"
    using delivery_bounded_retry [where rt = "clocked_runtime (\<lambda>n. Inr ''hi'') (\<lambda>n. n < 0) (\<lambda>n. 10000 \<le> n)"
      and responseText = "''hi''" and tabId = 7
      and w = "\<lparr>responseCache = [''k'' \<mapsto> \<lparr>data = ''v'', timestamp = 0\<rparr>], trace = [], ext = 0\<rparr>"
      and ?a0.0 = 0 and ?b0.0 = 0 and ?a1.0 = 500 and ?b1.0 = 500
      and ?a2.0 = 1250 and ?b2.0 = 1250 and ?a3.0 = 2375 and ?b3.0 = 2375, THEN conjunct2, THEN conjunct2, THEN conjunct1]
    by (simp add: clocked_runtime_def)
  have r2: "sendResponseToContent_defaults
          (clocked_runtime (\<lambda>n. Inr ''hi'') (\<lambda>n. n < 10000) (\<lambda>n. 0 \<le> n)) ''hi'' 7
          \<lparr>responseCache = [''k'' \<mapsto> \<lparr>data = ''v'', timestamp = 0\<rparr>], trace = [], ext = 0\<rparr>
      = \<lparr>responseCache = [''k'' \<mapsto> \<lparr>data = ''v'', timestamp = 0\<rparr>],
           trace =
             [TabsGet 7, TabsSendMessage 7 ''hi''],
           ext = 0\<rparr>"
    using delivery_bounded_retry [where rt = "clocked_runtime (\<lambda>n. Inr ''hi'') (\<lambda>n. n < 10000) (\<lambda>n. 0 \<le> n)"
      and responseText = "''hi''" and tabId = 7
      and w = "\<lparr>responseCache = [''k'' \<mapsto> \<lparr>data = ''v'', timestamp = 0\<rparr>], trace = [], ext = 0\<rparr>"
      and ?a0.0 = 0 and ?b0.0 = 0 and ?a1.0 = 500 and ?b1.0 = 500
      and ?a2.0 = 1250 and ?b2.0 = 1250 and ?a3.0 = 2375 and ?b3.0 = 2375, THEN conjunct2, THEN conjunct2, THEN conjunct2, THEN conjunct1]
    by (simp add: clocked_runtime_def)
  have r3: "sendResponseToContent_defaults
          (clocked_runtime (\<lambda>n. Inr ''hi'') (\<lambda>n. n < 500) (\<lambda>n. 10000 \<le> n)) ''hi'' 7
          \<lparr>responseCache = [''k'' \<mapsto> \<lparr>data = ''v'', timestamp = 0\<rparr>], trace = [], ext = 0\<rparr>
      = \<lparr>responseCache = [''k'' \<mapsto> \<lparr>data = ''v'', timestamp = 0\<rparr>],
           trace =
             [TabsGet 7, TabsSendMessage 7 ''hi'',
              ConsoleWarn ''Error sending response to content script:'',
              ConsoleLog ''Retrying message sending'', SetTimeout 500, TabsGet 7,
              ConsoleError ''Tab no longer exists:''],
           ext = 500\<rparr>"
    using delivery_bounded_retry [where rt = "clocked_runtime (\<lambda>n. Inr ''hi'') (\<lambda>n. n < 500) (\<lambda>n. 10000 \<le> n)"
      and responseText = "''hi''" and tabId = 7
      and w = "\<lparr>responseCache = [''k'' \<mapsto> \<lparr>data = ''v'', timestamp = 0\<rparr>], trace = [], ext = 0\<rparr>"
      and ?a0.0 = 0 and ?b0.0 = 0 and ?a1.0 = 500 and ?b1.0 = 500
      and ?a2.0 = 1250 and ?b2.0 = 1250 and ?a3.0 = 2375 and ?b3.0 = 2375, THEN conjunct2, THEN conjunct2, THEN conjunct2, THEN conjunct2, THEN conjunct1]
    by (simp add: clocked_runtime_def)
  have r4: "sendResponseToContent_defaults
          (clocked_runtime (\<lambda>n. Inr ''hi'') (\<lambda>n. n < 10000) (\<lambda>n. 500 \<le> n)) ''hi'' 7
          \<lparr>responseCache = [''k'' \<mapsto> \<lparr>data = ''v'', timestamp = 0\<rparr>], trace = [], ext = 0\<rparr>
      = \<lparr>responseCache = [''k'' \<mapsto> \<lparr>data = ''v'', timestamp = 0\<rparr>],
           trace =
             [TabsGet 7, TabsSendMessage 7 ''hi'',
              ConsoleWarn ''Error sending response to content script:'',
              ConsoleLog ''Retrying message sending'', SetTimeout 500, TabsGet 7,
              TabsSendMessage 7 ''hi''],
           ext = 500\<rparr>"
    using delivery_bounded_retry [where rt = "clocked_runtime (\<lambda>n. Inr ''hi'') (\<lambda>n. n < 10000) (\<lambda>n. 500 \<le> n)"
      and responseText = "''hi''" and tabId = 7
      and w = "\<lparr>responseCache = [''k'' \<mapsto> \<lparr>data = ''v'', timestamp = 0\<rparr>], trace = [], ext = 0\<rparr>"
      and ?a0.0 = 0 and ?b0.0 = 0 and ?a1.0 = 500 and ?b1.0 = 500
      and ?a2.0 = 1250 and ?b2.0 = 1250 and ?a3.0 = 2375 and ?b3.0 = 2375, THEN conjunct2, THEN conjunct2, THEN conjunct2, THEN conjunct2, THEN conjunct2, THEN conjunct1]
    by (simp add: clocked_runtime_def)
  have r5: "sendResponseToContent_defaults
          (clocked_runtime (\<lambda>n. Inr ''hi'') (\<lambda>n. n < 1250) (\<lambda>n. 10000 \<le> n)) ''hi'' 7
          \<lparr>responseCache = [''k'' \<mapsto> \<lparr>data = ''v'', timestamp = 0\<rparr>], trace = [], ext = 0\<rparr>
      = \<lparr>responseCache = [''k'' \<mapsto> \<lparr>data = ''v'', timestamp = 0\<rparr>],
           trace =
             [TabsGet 7, TabsSendMessage 7 ''hi'',
              ConsoleWarn ''Error sending response to content script:'',
              ConsoleLog ''Retrying message sending'', SetTimeout 500, TabsGet 7,
              TabsSendMessage 7 ''hi'',
              ConsoleWarn ''Error sending response to content script:'',
              ConsoleLog ''Retrying message sending'', SetTimeout 750, TabsGet 7,
              ConsoleError ''Tab no longer exists:''],
           ext = 1250\<rparr>"
    using delivery_bounded_retry [where rt = "clocked_runtime (\<lambda>n. Inr ''hi'') (\<lambda>n. n < 1250) (\<lambda>n. 10000 \<le> n)"
      and responseText = "''hi''" and tabId = 7
      and w = "\<lparr>responseCache = [''k'' \<mapsto> \<lparr>data = ''v'', timestamp = 0\<rparr>], trace = [], ext = 0\<rparr>"
      and ?a0.0 = 0 and ?b0.0 = 0 and ?a1.0 = 500 and ?b1.0 = 500
      and ?a2.0 = 1250 and ?b2.0 = 1250 and ?a3.0 = 2375 and ?b3.0 = 2375, THEN conjunct2, THEN conjunct2, THEN conjunct2, THEN conjunct2, THEN conjunct2, THEN conjunct2, THEN conjunct1]
    by (simp add: clocked_runtime_def)
  have r6: "sendResponseToContent_defaults
          (clocked_runtime (\<lambda>n. Inr ''hi'') (\<lambda>n. n < 10000) (\<lambda>n. 1250 \<le> n)) ''hi'' 7
          \<lparr>responseCache = [''k'' \<mapsto> \<lparr>data = ''v'', timestamp = 0\<rparr>], trace = [], ext = 0\<rparr>
      = \<lparr>responseCache = [''k'' \<mapsto> \<lparr>data = ''v'', timestamp = 0\<rparr>],
           trace =
             [TabsGet 7, TabsSendMessage 7 ''hi'',
              ConsoleWarn ''Error sending response to content script:'',
              ConsoleLog ''Retrying message sending'', SetTimeout 500, TabsGet 7,
              TabsSendMessage 7 ''hi'',
              ConsoleWarn ''Error sending response to content script:'',
              ConsoleLog ''Retrying message sending'', SetTimeout 750, TabsGet 7,
              TabsSendMessage 7 ''hi''],
           ext = 1250\<rparr>"
    using delivery_bounded_retry [where rt = "clocked_runtime (\<lambda>n. Inr ''hi'') (\<lambda>n. n < 10000) (\<lambda>n. 1250 \<le> n)"
      and responseText = "''hi''" and tabId = 7
      and w = "\<lparr>responseCache = [''k'' \<mapsto> \<lparr>data = ''v'', timestamp = 0\<rparr>], trace = [], ext = 0\<rparr>"
      and ?a0.0 = 0 and ?b0.0 = 0 and ?a1.0 = 500 and ?b1.0 = 500
      and ?a2.0 = 1250 and ?b2.0 = 1250 and ?a3.0 = 2375 and ?b3.0 = 2375, THEN conjunct2, THEN conjunct2, THEN conjunct2, THEN conjunct2, THEN conjunct2, THEN conjunct2, THEN conjunct2, THEN conjunct1]
    by (simp add: clocked_runtime_def)
  have r7: "sendResponseToContent_defaults
          (clocked_runtime (\<lambda>n. Inr ''hi'') (\<lambda>n. n < 2375) (\<lambda>n. 10000 \<le> n)) ''hi'' 7
          \<lparr>responseCache = [''k'' \<mapsto> \<lparr>data = ''v'', timestamp = 0\<rparr>], trace = [], ext = 0\<rparr>
      = \<lparr>responseCache = [''k'' \<mapsto> \<lparr>data = ''v'', timestamp = 0\<rparr>],
           trace =
             [TabsGet 7, TabsSendMessage 7 ''hi'',
              ConsoleWarn ''Error sending response to content script:'',
              ConsoleLog ''Retrying message sending'', SetTimeout 500, TabsGet 7,
              TabsSendMessage 7 ''hi'',
              ConsoleWarn ''Error sending response to content script:'',
              ConsoleLog ''Retrying message sending'', SetTimeout 750, TabsGet 7,
              TabsSendMessage 7 ''hi'',
              ConsoleWarn ''Error sending response to content script:'',
              ConsoleLog ''Retrying message sending'', SetTimeout 1125, TabsGet 7,
              ConsoleError ''Tab no longer exists:''],
           ext = 2375\<rparr>"
    using delivery_bounded_retry [where rt = "clocked_runtime (\<lambda>n. Inr ''hi'') (\<lambda>n. n < 2375) (\<lambda>n. 10000 \<le> n)"
      and responseText = "''hi''" and tabId = 7
      and w = "\<lparr>responseCache = [''k'' \<mapsto> \<lparr>data = ''v'', timestamp = 0\<rparr>], trace = [], ext = 0\<rparr>"
      and ?a0.0 = 0 and ?b0.0 = 0 and ?a1.0 = 500 and ?b1.0 = 500
      and ?a2.0 = 1250 and ?b2.0 = 1250 and ?a3.0 = 2375 and ?b3.0 = 2375, THEN conjunct2, THEN conjunct2, THEN conjunct2, THEN conjunct2, THEN conjunct2, THEN conjunct2, THEN conjunct2, THEN conjunct2, THEN conjunct1]
    by (simp add: clocked_runtime_def)
  have r8: "sendResponseToContent_defaults
          (clocked_runtime (\<lambda>n. Inr ''hi'') (\<lambda>n. n < 10000) (\<lambda>n. 2375 \<le> n)) ''hi'' 7
          \<lparr>responseCache = [''k'' \<mapsto> \<lparr>data = ''v'', timestamp = 0\<rparr>], trace = [], ext = 0\<rparr>
      = \<lparr>responseCache = [''k'' \<mapsto> \<lparr>data = ''v'', timestamp = 0\<rparr>],
           trace =
             [TabsGet 7, TabsSendMessage 7 ''hi'',
              ConsoleWarn ''Error sending response to content script:'',
              ConsoleLog ''Retrying message sending'', SetTimeout 500, TabsGet 7,
              TabsSendMessage 7 ''hi'',
              ConsoleWarn ''Error sending response to content script:'',
              ConsoleLog ''Retrying message sending'', SetTimeout 750, TabsGet 7,
              TabsSendMessage 7 ''hi'',
              ConsoleWarn ''Error sending response to content script:'',
              ConsoleLog ''Retrying message sending'', SetTimeout 1125, TabsGet 7,
              TabsSendMessage 7 ''hi''],
           ext = 2375\<rparr>"
    using delivery_bounded_retry [where rt = "clocked_runtime (\<lambda>n. Inr ''hi'') (\<lambda>n. n < 10000) (\<lambda>n. 2375 \<le> n)"
      and responseText = "''hi''" and tabId = 7
      and w = "\<lparr>responseCache = [''k'' \<mapsto> \<lparr>data = ''v'', timestamp = 0\<rparr>], trace = [], ext = 0\<rparr>"
      and ?a0.0 = 0 and ?b0.0 = 0 and ?a1.0 = 500 and ?b1.0 = 500
      and ?a2.0 = 1250 and ?b2.0 = 1250 and ?a3.0 = 2375 and ?b3.0 = 2375, THEN conjunct2, THEN conjunct2, THEN conjunct2, THEN conjunct2, THEN conjunct2, THEN conjunct2, THEN conjunct2, THEN conjunct2, THEN conjunct2, THEN conjunct1]
    by (simp add: clocked_runtime_def)
  have r9: "sendResponseToContent_defaults
          (clocked_runtime (\<lambda>n. Inr ''hi'') (\<lambda>n. n < 10000) (\<lambda>n. 10000 \<le> n)) ''hi'' 7
          \<lparr>responseCache = [''k'' \<mapsto> \<lparr>data = ''v'', timestamp = 0\<rparr>], trace = [], ext = 0\<rparr>
      = \<lparr>responseCache = [''k'' \<mapsto> \<lparr>data = ''v'', timestamp = 0\<rparr>],
           trace =
             [TabsGet 7, TabsSendMessage 7 ''hi'',
              ConsoleWarn ''Error sending response to content script:'',
              ConsoleLog ''Retrying message sending'', SetTimeout 500, TabsGet 7,
              TabsSendMessage 7 ''hi'',
              ConsoleWarn ''Error sending response to content script:'',
              ConsoleLog ''Retrying message sending'', SetTimeout 750, TabsGet 7,
              TabsSendMessage 7 ''hi'',
              ConsoleWarn ''Error sending response to content script:'',
              ConsoleLog ''Retrying message sending'', SetTimeout 1125, TabsGet 7,
              TabsSendMessage 7 ''hi'',
              ConsoleWarn ''Error sending response to content script:'',
              ConsoleError ''Failed to send message after multiple attempts''],
           ext = 2375\<rparr>"
    using delivery_bounded_retry [where rt = "clocked_runtime (\<lambda>n. Inr ''hi'') (\<lambda>n. n < 10000) (\<lambda>n. 10000 \<le> n)"
      and responseText = "''hi''" and tabId = 7
      and w = "\<lparr>responseCache = [''k'' \<mapsto> \<lparr>data = ''v'', timestamp = 0\<rparr>], trace = [], ext = 0\<rparr>"
      and ?a0.0 = 0 and ?b0.0 = 0 and ?a1.0 = 500 and ?b1.0 = 500
      and ?a2.0 = 1250 and ?b2.0 = 1250 and ?a3.0 = 2375 and ?b3.0 = 2375, THEN conjunct2, THEN conjunct2, THEN conjunct2, THEN conjunct2, THEN conjunct2, THEN conjunct2, THEN conjunct2, THEN conjunct2, THEN conjunct2, THEN conjunct2]
    by (simp add: clocked_runtime_def)
  show ?thesis by (intro conjI r1 r2 r3 r4 r5 r6 r7 r8 r9)
qed

text \<open>
  Claim C10. When the tab lookup reports an error, \<^verbatim>\<open>sendResponseToContent\<close> logs
  and returns: it sends no message, sets no timer and makes no further call, whatever
  its \<open>retries\<close> and \<open>delay\<close>. A retry timer is set exactly when the tab is there, the
  send fails and retries are left; then the function runs again with one retry less
  and the delay times 1.5.
\<close>

theorem tab_gone_no_retry:
  "(\<not> fst (tabs_get rt tabId (ext w)) \<longrightarrow>
      sendResponseToContent rt responseText tabId retries delay w =
        w\<lparr>trace := trace w @ [TabsGet tabId, ConsoleError ''Tab no longer exists:''],
          ext := snd (tabs_get rt tabId (ext w))\<rparr>)
   \<and> (timeouts (drop (length (trace w))
          (trace (sendResponseToContent rt responseText tabId retries delay w))) \<noteq> []
      \<longleftrightarrow> fst (tabs_get rt tabId (ext w))
          \<and> \<not> fst (tabs_sendMessage rt tabId responseText (snd (tabs_get rt tabId (ext w))))
          \<and> retries > 0)
   \<and> (fst (tabs_get rt tabId (ext w))
       \<and> \<not> fst (tabs_sendMessage rt tabId responseText (snd (tabs_get rt tabId (ext w))))
       \<and> retries > 0 \<longrightarrow>
      sendResponseToContent rt responseText tabId retries delay w =
        sendResponseToContent rt responseText tabId (retries - 1) (delay * 1.5)
          (w\<lparr>trace := trace w @
               [TabsGet tabId, TabsSendMessage tabId responseText,
                ConsoleWarn ''Error sending response to content script:'',
                ConsoleLog ''Retrying message sending'',
                SetTimeout delay],
             ext := timer_wait rt delay
                      (snd (tabs_sendMessage rt tabId responseText
                              (snd (tabs_get rt tabId (ext w)))))\<rparr>))"
proof (intro conjI impI)
  assume "\<not> fst (tabs_get rt tabId (ext w))"
  then show "sendResponseToContent rt responseText tabId retries delay w =
        w\<lparr>trace := trace w @ [TabsGet tabId, ConsoleError ''Tab no longer exists:''],
          ext := snd (tabs_get rt tabId (ext w))\<rparr>"
    by (rule send_tab_gone)
next
  let ?run = "sendResponseToContent rt responseText tabId retries delay w"
  let ?sent = "fst (tabs_sendMessage rt tabId responseText (snd (tabs_get rt tabId (ext w))))"
  show "timeouts (drop (length (trace w)) (trace ?run)) \<noteq> []
      \<longleftrightarrow> fst (tabs_get rt tabId (ext w)) \<and> \<not> ?sent \<and> retries > 0"
  proof (cases "fst (tabs_get rt tabId (ext w))")
    case False
    then show ?thesis by (simp add: send_tab_gone)
  next
    case tab: True
    show ?thesis
    proof (cases ?sent)
      case True
      with tab show ?thesis by (simp add: send_delivered)
    next
      case fail: False
      show ?thesis
      proof (cases "retries > 0")
        case False
        with tab fail show ?thesis by (simp add: send_given_up)
      next
        case True
        let ?pre = "[TabsGet tabId, TabsSendMessage tabId responseText,
                ConsoleWarn ''Error sending response to content script:'',
                ConsoleLog ''Retrying message sending'',
                SetTimeout delay]"
        let ?w1 = "w\<lparr>trace := trace w @ ?pre,
             ext := timer_wait rt delay
                      (snd (tabs_sendMessage rt tabId responseText
                              (snd (tabs_get rt tabId (ext w)))))\<rparr>"
        from send_trace [of "retries - 1" rt responseText tabId "delay * 1.5" ?w1]
        obtain evs where
          "trace (sendResponseToContent rt responseText tabId (retries - 1) (delay * 1.5) ?w1)
             = trace ?w1 @ evs"
          by blast
        then have "trace ?run = trace w @ ?pre @ evs"
          by (simp add: send_retry [OF tab fail True])
        then have "timeouts (drop (length (trace w)) (trace ?run)) = delay # timeouts evs"
          by simp
        with tab fail True show ?thesis by simp
      qed
    qed
  qed
next
  assume "fst (tabs_get rt tabId (ext w))
       \<and> \<not> fst (tabs_sendMessage rt tabId responseText (snd (tabs_get rt tabId (ext w))))
       \<and> retries > 0"
  then show "sendResponseToContent rt responseText tabId retries delay w =
        sendResponseToContent rt responseText tabId (retries - 1) (delay * 1.5)
          (w\<lparr>trace := trace w @
               [TabsGet tabId, TabsSendMessage tabId responseText,
                ConsoleWarn ''Error sending response to content script:'',
                ConsoleLog ''Retrying message sending'',
                SetTimeout delay],
             ext := timer_wait rt delay
                      (snd (tabs_sendMessage rt tabId responseText
                              (snd (tabs_get rt tabId (ext w)))))\<rparr>)"
    by (simp add: send_retry)
qed

text \<open>
  The tab is gone and three retries are left: two events, no send, no timer. The tab
  is there, the send fails and one retry is left: the timer is set and the function
  runs once more.
\<close>

theorem tab_gone_no_retry_witness:
  "sendResponseToContent (example_runtime (Inr ''hi'') False False) ''hi'' 7 3 500
      \<lparr>responseCache = Map.empty, trace = [], ext = 0\<rparr>
    = \<lparr>responseCache = Map.empty,
       trace = [TabsGet 7, ConsoleError ''Tab no longer exists:''],
       ext = 0\<rparr>
   \<and> sendResponseToContent (example_runtime (Inr ''hi'') True False) ''hi'' 7 1 500
      \<lparr>responseCache = Map.empty, trace = [], ext = 0\<rparr>
    = \<lparr>responseCache = Map.empty,
       trace = [TabsGet 7, TabsSendMessage 7 ''hi'',
                ConsoleWarn ''Error sending response to content script:'',
                ConsoleLog ''Retrying message sending'', SetTimeout 500,
                TabsGet 7, TabsSendMessage 7 ''hi'',
                ConsoleWarn ''Error sending response to content script:'',
                ConsoleError ''Failed to send message after multiple attempts''],
       ext = 500\<rparr>"
  using
    tab_gone_no_retry [of "example_runtime (Inr ''hi'') False False" 7
      "\<lparr>responseCache = Map.empty, trace = [], ext = 0\<rparr>" "''hi''" 3 500]
    tab_gone_no_retry [of "example_runtime (Inr ''hi'') True False" 7
      "\<lparr>responseCache = Map.empty, trace = [], ext = 0\<rparr>" "''hi''" 1 500]
  by (simp add: example_runtime_def sendResponseToContent.simps)

subsection \<open>Debounce\<close>

lemma next_due_Nil: "next_due now [] = None"
  by (simp add: next_due_def)

lemma next_due_single: "next_due now [x] = (if deadline x \<le> now then Some x else None)"
  by (simp add: next_due_def)

lemma run_timers_idle: "pending s = [] \<Longrightarrow> run_timers now s = s"
  by (subst run_timers.simps) (simp add: next_due_Nil)

lemma run_timers_not_due: "pending s = [x] \<Longrightarrow> now < deadline x \<Longrightarrow> run_timers now s = s"
  by (subst run_timers.simps) (simp add: next_due_single)

lemma run_timers_due:
  assumes "pending s = [x]" "deadline x \<le> now"
  shows "run_timers now s = s\<lparr>pending := [], executed := executed s @ [targs x]\<rparr>"
proof -
  let ?s1 = "later (targs x) (s\<lparr>pending := remove1 x (pending s)\<rparr>)"
  have s1: "?s1 = s\<lparr>pending := [], executed := executed s @ [targs x]\<rparr>"
    using assms by (simp add: later_def clearTimeout_def Let_def split: option.splits)
  have "run_timers now s = run_timers now ?s1"
    using assms by (subst run_timers.simps) (simp add: next_due_single)
  also have "\<dots> = ?s1" by (rule run_timers_idle) (simp add: s1)
  finally show ?thesis by (simp add: s1)
qed

lemma executedFunction_idle:
  assumes "pending s = []"
  shows "executedFunction wait now args s =
    s\<lparr>timeout := Some (next_id s),
      pending := [\<lparr>tid = next_id s, deadline = now + wait, targs = args\<rparr>],
      next_id := Suc (next_id s)\<rparr>"
  using assms
  by (simp add: executedFunction_def clearTimeout_def setTimeout_def Let_def split: option.splits)

lemma executedFunction_armed:
  assumes "pending s = [x]" "timeout s = Some (tid x)"
  shows "executedFunction wait now args s =
    s\<lparr>timeout := Some (next_id s),
      pending := [\<lparr>tid = next_id s, deadline = now + wait, targs = args\<rparr>],
      next_id := Suc (next_id s)\<rparr>"
  using assms
  by (simp add: executedFunction_def clearTimeout_def setTimeout_def Let_def)

lemma run_calls_burst:
  assumes "pending s = [x]" "timeout s = Some (tid x)"
    and "deadline x = t0 + DEBOUNCE_DELAY" "targs x = a0"
    and "successively (\<lambda>c c'. fst c \<le> fst c' \<and> fst c' < fst c + 300) ((t0, a0) # calls)"
  shows "\<exists>y. pending (run_calls calls s) = [y] \<and> timeout (run_calls calls s) = Some (tid y)
           \<and> deadline y = fst (last ((t0, a0) # calls)) + DEBOUNCE_DELAY
           \<and> targs y = snd (last ((t0, a0) # calls))
           \<and> executed (run_calls calls s) = executed s"
  using assms
proof (induction calls arbitrary: s x t0 a0)
  case Nil
  then show ?case by simp
next
  case (Cons c calls)
  obtain now "text" tabId where c: "c = (now, text, tabId)" by (cases c) auto
  from Cons.prems(5) c have gap: "now < t0 + 300"
    and rest: "successively (\<lambda>c c'. fst c \<le> fst c' \<and> fst c' < fst c + 300) ((now, (text, tabId)) # calls)"
    by simp_all
  let ?s1 = "fetchAIResponse now text tabId (run_timers now s)"
  let ?y = "\<lparr>tid = next_id s, deadline = now + DEBOUNCE_DELAY, targs = (text, tabId)\<rparr>"
  have "run_timers now s = s"
    using Cons.prems(1,3) gap by (intro run_timers_not_due [of s x]) (simp_all add: DEBOUNCE_DELAY_def)
  then have s1: "?s1 = s\<lparr>timeout := Some (next_id s), pending := [?y], next_id := Suc (next_id s)\<rparr>"
    using Cons.prems(1,2) by (simp add: fetchAIResponse_def executedFunction_armed [of s x])
  have "\<exists>y. pending (run_calls calls ?s1) = [y] \<and> timeout (run_calls calls ?s1) = Some (tid y)
           \<and> deadline y = fst (last ((now, (text, tabId)) # calls)) + DEBOUNCE_DELAY
           \<and> targs y = snd (last ((now, (text, tabId)) # calls))
           \<and> executed (run_calls calls ?s1) = executed ?s1"
    by (rule Cons.IH [of ?s1 ?y now "(text, tabId)"]) (simp_all add: s1 rest)
  then show ?case by (simp add: c s1)
qed

lemma first_call_arms:
  assumes "pending s = [] \<or> (\<exists>x. pending s = [x] \<and> timeout s = Some (tid x))"
  shows "\<exists>y. pending (fetchAIResponse now text tabId (run_timers now s)) = [y]
           \<and> timeout (fetchAIResponse now text tabId (run_timers now s)) = Some (tid y)
           \<and> deadline y = now + DEBOUNCE_DELAY \<and> targs y = (text, tabId)
           \<and> executed (fetchAIResponse now text tabId (run_timers now s))
               = executed (run_timers now s)"
proof -
  have "pending (run_timers now s) = []
      \<or> (\<exists>x. pending (run_timers now s) = [x] \<and> timeout (run_timers now s) = Some (tid x))"
  proof (cases "pending s = []")
    case True
    then show ?thesis by (simp add: run_timers_idle)
  next
    case False
    with assms obtain x where x: "pending s = [x]" "timeout s = Some (tid x)" by blast
    show ?thesis
    proof (cases "deadline x \<le> now")
      case True
      with x show ?thesis by (simp add: run_timers_due)
    next
      case False
      with x show ?thesis by (simp add: run_timers_not_due)
    qed
  qed
  then show ?thesis
  proof
    assume "pending (run_timers now s) = []"
    then show ?thesis by (simp add: fetchAIResponse_def executedFunction_idle)
  next
    assume "\<exists>x. pending (run_timers now s) = [x] \<and> timeout (run_timers now s) = Some (tid x)"
    then obtain x where "pending (run_timers now s) = [x]" "timeout (run_timers now s) = Some (tid x)"
      by blast
    then show ?thesis by (simp add: fetchAIResponse_def executedFunction_armed [of _ x])
  qed
qed

lemma run_calls_any_start:
  assumes "calls \<noteq> []"
    and "pending s = [] \<or> (\<exists>x. pending s = [x] \<and> timeout s = Some (tid x))"
    and "successively (\<lambda>c c'. fst c \<le> fst c' \<and> fst c' < fst c + 300) calls"
  shows "\<exists>y. pending (run_calls calls s) = [y]
           \<and> timeout (run_calls calls s) = Some (tid y)
           \<and> deadline y = fst (last calls) + DEBOUNCE_DELAY
           \<and> targs y = snd (last calls)
           \<and> executed (run_calls calls s) = executed (run_timers (fst (hd calls)) s)"
proof -
  obtain now "text" tabId rest where calls: "calls = (now, text, tabId) # rest"
    using assms(1) by (cases calls) auto
  let ?s1 = "fetchAIResponse now text tabId (run_timers now s)"
  from first_call_arms [OF assms(2), of now "text" tabId]
  obtain y where y: "pending ?s1 = [y]" "timeout ?s1 = Some (tid y)"
    "deadline y = now + DEBOUNCE_DELAY" "targs y = (text, tabId)"
    "executed ?s1 = executed (run_timers now s)"
    by blast
  from assms(3) have "successively (\<lambda>c c'. fst c \<le> fst c' \<and> fst c' < fst c + 300)
      ((now, (text, tabId)) # rest)"
    by (simp add: calls)
  from run_calls_burst [OF y(1-4) this]
  show ?thesis by (auto simp add: calls y(5))
qed

text \<open>
  Claim C3. Take one or more calls of the debounced function, each less than 300 ms
  after the one before, made in any state the wrapper can be in: no timer pending, or
  the one timer whose handle the wrapper holds. Until 300 ms after the last call the
  wrapped function is not run for any call of the sequence. From then on it has been
  run exactly once for the sequence, with the text and the tab of the last call, after
  whatever had run before, and no timer is left that could run it again. What had run
  before the sequence is what had run in the starting state, and the call of a timer
  that was pending there only if that timer was due when the first call came: a timer
  not yet due is cancelled by the first call, whatever its tab. After the calls the
  wrapper is again in such a state, holding the one timer of the last call, so the
  statement applies to the calls that follow.
\<close>

theorem debounce_burst:
  assumes "calls \<noteq> []"
    and "pending s = [] \<or> (\<exists>x. pending s = [x] \<and> timeout s = Some (tid x))"
    and "successively (\<lambda>c c'. fst c \<le> fst c' \<and> fst c' < fst c + 300) calls"
  shows "(fst (last calls) + 300 \<le> now \<longrightarrow>
             executed (run_timers now (run_calls calls s))
               = executed (run_timers (fst (hd calls)) s) @ [snd (last calls)]
           \<and> pending (run_timers now (run_calls calls s)) = [])
       \<and> (now < fst (last calls) + 300 \<longrightarrow>
             executed (run_timers now (run_calls calls s))
               = executed (run_timers (fst (hd calls)) s))
       \<and> (pending s = [] \<longrightarrow> executed (run_timers (fst (hd calls)) s) = executed s)
       \<and> (pending s = [x] \<and> fst (hd calls) < deadline x \<longrightarrow>
             executed (run_timers (fst (hd calls)) s) = executed s)
       \<and> (pending s = [x] \<and> deadline x \<le> fst (hd calls) \<longrightarrow>
             executed (run_timers (fst (hd calls)) s) = executed s @ [targs x])
       \<and> (\<exists>y. pending (run_calls calls s) = [y] \<and> timeout (run_calls calls s) = Some (tid y)
              \<and> deadline y = fst (last calls) + 300 \<and> targs y = snd (last calls))"
proof -
  from run_calls_any_start [OF assms]
  obtain y where y: "pending (run_calls calls s) = [y]"
    "deadline y = fst (last calls) + DEBOUNCE_DELAY" "targs y = snd (last calls)"
    "executed (run_calls calls s) = executed (run_timers (fst (hd calls)) s)"
    and yt: "timeout (run_calls calls s) = Some (tid y)"
    by blast
  show ?thesis
  proof (intro conjI impI)
    from y(1-3) yt
    show "\<exists>y. pending (run_calls calls s) = [y] \<and> timeout (run_calls calls s) = Some (tid y)
              \<and> deadline y = fst (last calls) + 300 \<and> targs y = snd (last calls)"
      by (intro exI [of _ y]) (simp add: DEBOUNCE_DELAY_def)
  next
    assume "fst (last calls) + 300 \<le> now"
    then have "deadline y \<le> now" using y(2) by (simp add: DEBOUNCE_DELAY_def)
    from run_timers_due [OF y(1) this] y(3,4)
    show "executed (run_timers now (run_calls calls s))
               = executed (run_timers (fst (hd calls)) s) @ [snd (last calls)]"
      and "pending (run_timers now (run_calls calls s)) = []"
      by simp_all
  next
    assume "now < fst (last calls) + 300"
    then have "now < deadline y" using y(2) by (simp add: DEBOUNCE_DELAY_def)
    from run_timers_not_due [OF y(1) this] y(4)
    show "executed (run_timers now (run_calls calls s))
               = executed (run_timers (fst (hd calls)) s)"
      by simp
  next
    assume "pending s = []"
    then show "executed (run_timers (fst (hd calls)) s) = executed s"
      by (simp add: run_timers_idle)
  next
    assume "pending s = [x] \<and> fst (hd calls) < deadline x"
    then show "executed (run_timers (fst (hd calls)) s) = executed s"
      by (simp add: run_timers_not_due)
  next
    assume "pending s = [x] \<and> deadline x \<le> fst (hd calls)"
    then show "executed (run_timers (fst (hd calls)) s) = executed s @ [targs x]"
      by (simp add: run_timers_due)
  qed
qed

text \<open>
  Three calls at 0, 100 and 350 ms for three different tabs in a fresh worker: at
  649 ms nothing has run, at 650 ms the third call's arguments have run, alone. A
  second burst at 1000 and 1100 ms, after the first has run: at 1400 ms the fifth
  call's arguments have run after the third's. The same burst when the timer of the
  third call is still in the table: it is due, runs first, and the result is the same.
  A call at 500 ms while the timer of the third call is pending and not yet due: the
  third call never runs.
\<close>

theorem debounce_burst_witness:
  "executed (run_timers 650
      (run_calls [(0, ''first'', 1), (100, ''second'', 2), (350, ''third'', 3)]
         \<lparr>timeout = None, pending = [], next_id = 1, executed = []\<rparr>)) = [(''third'', 3)]
   \<and> pending (run_timers 650
      (run_calls [(0, ''first'', 1), (100, ''second'', 2), (350, ''third'', 3)]
         \<lparr>timeout = None, pending = [], next_id = 1, executed = []\<rparr>)) = []
   \<and> executed (run_timers 649
      (run_calls [(0, ''first'', 1), (100, ''second'', 2), (350, ''third'', 3)]
         \<lparr>timeout = None, pending = [], next_id = 1, executed = []\<rparr>)) = []
   \<and> executed (run_timers 1400
      (run_calls [(1000, ''fourth'', 4), (1100, ''fifth'', 5)]
         \<lparr>timeout = Some 3, pending = [], next_id = 4, executed = [(''third'', 3)]\<rparr>))
     = [(''third'', 3), (''fifth'', 5)]
   \<and> executed (run_timers 1400
      (run_calls [(1000, ''fourth'', 4), (1100, ''fifth'', 5)]
         \<lparr>timeout = Some 3,
           pending = [\<lparr>tid = 3, deadline = 650, targs = (''third'', 3)\<rparr>],
           next_id = 4, executed = []\<rparr>))
     = [(''third'', 3), (''fifth'', 5)]
   \<and> executed (run_timers 800
      (run_calls [(500, ''fourth'', 4)]
         \<lparr>timeout = Some 3,
           pending = [\<lparr>tid = 3, deadline = 650, targs = (''third'', 3)\<rparr>],
           next_id = 4, executed = []\<rparr>))
     = [(''fourth'', 4)]"
  using
    debounce_burst [of "[(0, ''first'', 1), (100, ''second'', 2), (350, ''third'', 3)]"
      "\<lparr>timeout = None, pending = [], next_id = 1, executed = []\<rparr>" 650]
    debounce_burst [of "[(0, ''first'', 1), (100, ''second'', 2), (350, ''third'', 3)]"
      "\<lparr>timeout = None, pending = [], next_id = 1, executed = []\<rparr>" 649]
    debounce_burst [of "[(1000, ''fourth'', 4), (1100, ''fifth'', 5)]"
      "\<lparr>timeout = Some 3, pending = [], next_id = 4, executed = [(''third'', 3)]\<rparr>" 1400]
    debounce_burst [of "[(1000, ''fourth'', 4), (1100, ''fifth'', 5)]"
      "\<lparr>timeout = Some 3,
           pending = [\<lparr>tid = 3, deadline = 650, targs = (''third'', 3)\<rparr>],
           next_id = 4, executed = []\<rparr>" 1400
      "\<lparr>tid = 3, deadline = 650, targs = (''third'', 3)\<rparr>"]
    debounce_burst [of "[(500, ''fourth'', 4)]"
      "\<lparr>timeout = Some 3,
           pending = [\<lparr>tid = 3, deadline = 650, targs = (''third'', 3)\<rparr>],
           next_id = 4, executed = []\<rparr>" 800
      "\<lparr>tid = 3, deadline = 650, targs = (''third'', 3)\<rparr>"]
  by simp

end
